theory Spec2Isabelle
  imports Main
begin

section \<open>The Python REPL server of scripts/python\_repl\_server.py\<close>

text \<open>
  The script has three functions: \<open>execute_python\<close> (with the context manager
  \<open>capture_output\<close>), \<open>handle_message\<close> and \<open>main\<close>. They are embedded below line by
  line. What they call but do not define (\<open>json.loads\<close>, \<open>eval\<close>, \<open>exec\<close>,
  \<open>repr\<close>, \<open>traceback.format_exc\<close>, \<open>int\<close>) belongs to the Python runtime and is a
  parameter \<open>rt\<close> of every operation; theorems in \<open>rt\<close> hold whatever the runtime and the
  submitted code do. A small executable runtime, \<open>cpy\<close>, gives CPython's behaviour on a
  fragment of JSON and of Python and serves the concrete inputs.

  Text is a list of characters with code points below 256.
\<close>

subsection \<open>Text helpers\<close>

abbreviation nl :: char where "nl \<equiv> CHR 0x0A"
abbreviation cr :: char where "cr \<equiv> CHR 0x0D"
abbreviation dq :: char where "dq \<equiv> CHR 0x22"
abbreviation sq :: char where "sq \<equiv> CHR 0x27"
abbreviation bsl :: char where "bsl \<equiv> CHR 0x5C"

definition digit_char :: "nat \<Rightarrow> char" where
  "digit_char d =
     (if d = 0 then CHR ''0'' else if d = 1 then CHR ''1'' else if d = 2 then CHR ''2''
      else if d = 3 then CHR ''3'' else if d = 4 then CHR ''4'' else if d = 5 then CHR ''5''
      else if d = 6 then CHR ''6'' else if d = 7 then CHR ''7'' else if d = 8 then CHR ''8''
      else CHR ''9'')"

fun str_nat :: "nat \<Rightarrow> string" where
  "str_nat n = (if n < 10 then [digit_char n] else str_nat (n div 10) @ [digit_char (n mod 10)])"

declare str_nat.simps [simp del]

definition str_int :: "int \<Rightarrow> string" where
  \<comment> \<open>\<open>str(i)\<close> of a Python int: decimal, with a minus sign when negative\<close>
  "str_int i = (if i < 0 then CHR ''-'' # str_nat (nat (- i)) else str_nat (nat i))"

definition is_space :: "char \<Rightarrow> bool" where
  \<comment> \<open>\<open>str.isspace\<close> on code points below 256\<close>
  "is_space c = (of_char c \<in> {9, 10, 11, 12, 13, 28, 29, 30, 31, 32, 133, 160 :: nat})"

definition strip :: "string \<Rightarrow> string" where
  \<comment> \<open>\<open>s.strip()\<close>\<close>
  "strip s = rev (dropWhile is_space (rev (dropWhile is_space s)))"

definition startswith :: "string \<Rightarrow> string \<Rightarrow> bool" where
  \<comment> \<open>\<open>s.startswith(pre)\<close>\<close>
  "startswith s pre = (take (length pre) s = pre)"

definition split_colon_1 :: "string \<Rightarrow> string option" where
  \<comment> \<open>\<open>s.split(":")[1]\<close>: the text between the first and the second colon; without a colon
      the index is out of range\<close>
  "split_colon_1 s =
     (case dropWhile (\<lambda>c. c \<noteq> CHR '':'') s of
        [] \<Rightarrow> None
      | _ # r \<Rightarrow> Some (takeWhile (\<lambda>c. c \<noteq> CHR '':'') r))"

subsection \<open>JSON values and \<open>json.dumps\<close>\<close>

text \<open>
  What \<open>json.loads\<close> returns and \<open>json.dumps\<close> takes: \<open>None\<close>, \<open>bool\<close>, \<open>int\<close>,
  \<open>float\<close> (carried as the text \<open>json.dumps\<close> writes for it), \<open>str\<close>, \<open>list\<close> and
  \<open>dict\<close> (an association list in insertion order, keys distinct).
\<close>

datatype json =
    JNull
  | JBool bool
  | JInt int
  | JFloat string
  | JStr string
  | JArr "json list"
  | JObj "(string \<times> json) list"

definition hex_char :: "nat \<Rightarrow> char" where
  "hex_char d =
     (if d < 10 then digit_char d else if d = 10 then CHR ''a'' else if d = 11 then CHR ''b''
      else if d = 12 then CHR ''c'' else if d = 13 then CHR ''d'' else if d = 14 then CHR ''e''
      else CHR ''f'')"

definition escape_char :: "char \<Rightarrow> string" where
  \<comment> \<open>\<open>json.dumps\<close> with \<open>ensure_ascii\<close> (the default): everything outside space to tilde
      is escaped\<close>
  "escape_char c =
     (if c = dq then [bsl, dq]
      else if c = bsl then [bsl, bsl]
      else if c = nl then [bsl, CHR ''n'']
      else if c = cr then [bsl, CHR ''r'']
      else if c = CHR 0x09 then [bsl, CHR ''t'']
      else if c = CHR 0x08 then [bsl, CHR ''b'']
      else if c = CHR 0x0C then [bsl, CHR ''f'']
      else if 32 \<le> (of_char c :: nat) \<and> (of_char c :: nat) \<le> 126 then [c]
      else [bsl, CHR ''u'', CHR ''0'', CHR ''0'',
            hex_char ((of_char c :: nat) div 16), hex_char ((of_char c :: nat) mod 16)])"

definition dumps_str :: "string \<Rightarrow> string" where
  "dumps_str s = dq # concat (map escape_char s) @ [dq]"

fun join :: "string \<Rightarrow> string list \<Rightarrow> string" where
  "join sep [] = []"
| "join sep [x] = x"
| "join sep (x # y # ys) = x @ sep @ join sep (y # ys)"

fun json_dumps :: "json \<Rightarrow> string" where
  \<comment> \<open>\<open>json.dumps(v)\<close> with the default separators\<close>
  "json_dumps JNull = ''null''"
| "json_dumps (JBool b) = (if b then ''true'' else ''false'')"
| "json_dumps (JInt i) = str_int i"
| "json_dumps (JFloat r) = r"
| "json_dumps (JStr s) = dumps_str s"
| "json_dumps (JArr xs) = ''['' @ join '', '' (map json_dumps xs) @ '']''"
| "json_dumps (JObj kvs) =
     ''{'' @ join '', '' (map (\<lambda>kv. dumps_str (fst kv) @ '': '' @ json_dumps (snd kv)) kvs) @ ''}''"

subsection \<open>Exceptions and outcomes\<close>

text \<open>
  An exception is known by its place in the class hierarchy, which is all the \<open>except\<close>
  clauses of the script test: an instance of \<open>SyntaxError\<close>; an instance of \<open>Exception\<close>
  that is no \<open>SyntaxError\<close>; or a \<open>BaseException\<close> that is no \<open>Exception\<close>
  (\<open>SystemExit\<close>, \<open>KeyboardInterrupt\<close>, \<open>GeneratorExit\<close>). \<open>exn_str\<close> is \<open>str(e)\<close>.
\<close>

datatype exn_kind = SyntaxErr | OtherException | NonException

record exn =
  exn_kind :: exn_kind
  exn_name :: string
  exn_str :: string

datatype 'a outcome = Return 'a | Raise exn

text \<open>
  \<open>eval\<close> and \<open>exec\<close> either reject the source before any of it runs (\<open>Rejected\<close>: it does
  not compile in the mode asked for, or is no source at all), or run it (\<open>Ran\<close>), and then
  the code returns or raises. The caller sees an exception in both raising cases.
\<close>

datatype 'a run = Rejected exn | Ran "'a outcome"

definition as_outcome :: "'a run \<Rightarrow> 'a outcome" where
  "as_outcome r = (case r of Rejected e \<Rightarrow> Raise e | Ran x \<Rightarrow> x)"

definition is_exception :: "exn \<Rightarrow> bool" where
  \<comment> \<open>\<open>isinstance(e, Exception)\<close>\<close>
  "is_exception e = (exn_kind e \<noteq> NonException)"

definition is_syntax_error :: "exn \<Rightarrow> bool" where
  \<comment> \<open>\<open>isinstance(e, SyntaxError)\<close>\<close>
  "is_syntax_error e = (exn_kind e = SyntaxErr)"

subsection \<open>Process state\<close>

text \<open>
  Python values as far as the script looks at them: \<open>None\<close>, or something with a
  \<open>repr\<close>. \<open>PObj\<close> stands for an object of any other type, by identity.
\<close>

datatype pyval = PNone | PInt int | PObj nat

text \<open>A text stream object (\<open>StringIO\<close>, or the real standard output): the text written
  to it so far, or closed.\<close>

datatype sio = Open string | Closed

datatype call = EvalCall json | ExecCall json

text \<open>
  The process: the session dictionary \<open>state\<close>; the stream objects, by reference (their
  index); the slots \<open>sys.stdout\<close>, \<open>sys.stderr\<close> and \<open>sys.__stdout__\<close>, each holding a
  reference; the text not yet read from standard input. \<open>calls\<close> is a ghost field: the
  log of the calls of \<open>eval\<close> and \<open>exec\<close> made by \<open>execute_python\<close>, which no code reads.
\<close>

record process =
  session :: "(string \<times> pyval) list"
  objs :: "sio list"
  sys_stdout :: nat
  sys_stderr :: nat
  sys_orig_stdout :: nat
  sys_stdin :: string
  calls :: "call list"

text \<open>The runtime: what the script calls and does not define.\<close>

record runtime =
  json_loads :: "string \<Rightarrow> json outcome"
  py_eval :: "json \<Rightarrow> process \<Rightarrow> pyval run \<times> process"
  py_exec :: "json \<Rightarrow> process \<Rightarrow> unit run \<times> process"
  py_repr :: "pyval \<Rightarrow> process \<Rightarrow> string outcome \<times> process"
  format_exc :: "exn \<Rightarrow> string"
  other_str :: "json \<Rightarrow> string"
  py_int :: "string \<Rightarrow> int outcome"
  closed_error :: exn

text \<open>
  \<open>json_loads\<close>, \<open>py_eval\<close>, \<open>py_exec\<close>, \<open>py_repr\<close> and \<open>py_int\<close> are \<open>json.loads\<close>,
  \<open>eval(code, state)\<close>, \<open>exec(code, state)\<close>, \<open>repr\<close> and \<open>int\<close>; \<open>format_exc e\<close> is what
  \<open>traceback.format_exc()\<close> returns while \<open>e\<close> is being handled; \<open>other_str\<close> is \<open>str\<close> of
  a float, list or dict; \<open>closed_error\<close> is the \<open>ValueError\<close> of a closed stream. Running
  code may change the whole process, so \<open>eval\<close>, \<open>exec\<close> and \<open>repr\<close> return a new one.
\<close>

subsection \<open>Streams\<close>

definition StringIO :: "process \<Rightarrow> nat \<times> process" where
  \<comment> \<open>\<open>StringIO()\<close>: a new, open, empty stream object\<close>
  "StringIO p = (length (objs p), p\<lparr>objs := objs p @ [Open []]\<rparr>)"

definition obj_at :: "process \<Rightarrow> nat \<Rightarrow> sio" where
  \<comment> \<open>the object behind a reference; a reference to nothing cannot arise in Python and
      reads as a closed stream\<close>
  "obj_at p r = (if r < length (objs p) then objs p ! r else Closed)"

definition getvalue :: "exn \<Rightarrow> nat \<Rightarrow> process \<Rightarrow> string outcome" where
  \<comment> \<open>\<open>r.getvalue()\<close>; \<open>ce\<close> is the error of a closed stream\<close>
  "getvalue ce r p = (case obj_at p r of Open s \<Rightarrow> Return s | Closed \<Rightarrow> Raise ce)"

definition stream_write :: "exn \<Rightarrow> nat \<Rightarrow> string \<Rightarrow> process \<Rightarrow> unit outcome \<times> process" where
  \<comment> \<open>\<open>r.write(s)\<close>\<close>
  "stream_write ce r s p =
     (case obj_at p r of
        Open t \<Rightarrow> (Return (), p\<lparr>objs := (objs p)[r := Open (t @ s)]\<rparr>)
      | Closed \<Rightarrow> (Raise ce, p))"

definition readline :: "process \<Rightarrow> string \<times> process" where
  \<comment> \<open>\<open>sys.stdin.readline()\<close>: through the first newline, or what is left at end of stream
      (the empty text once nothing is left)\<close>
  "readline p =
     (case dropWhile (\<lambda>c. c \<noteq> nl) (sys_stdin p) of
        [] \<Rightarrow> (sys_stdin p, p\<lparr>sys_stdin := []\<rparr>)
      | _ # r \<Rightarrow> (takeWhile (\<lambda>c. c \<noteq> nl) (sys_stdin p) @ [nl], p\<lparr>sys_stdin := r\<rparr>))"

definition read :: "int \<Rightarrow> process \<Rightarrow> string \<times> process" where
  \<comment> \<open>\<open>sys.stdin.read(n)\<close>: at most \<open>n\<close> characters; everything when \<open>n\<close> is negative\<close>
  "read n p =
     (if n < 0 then (sys_stdin p, p\<lparr>sys_stdin := []\<rparr>)
      else (take (nat n) (sys_stdin p), p\<lparr>sys_stdin := drop (nat n) (sys_stdin p)\<rparr>))"

subsection \<open>\<open>execute_python\<close>\<close>

text \<open>The dictionary \<open>execute_python\<close> returns: its keys are \<open>"success"\<close>,
  \<open>"output"\<close>, \<open>"error"\<close> and \<open>"result"\<close> (\<open>output\<close> is a keyword here, hence the prefix).\<close>

record exec_result =
  r_success :: bool
  r_output :: string
  r_error :: string
  r_result :: "string option"

definition eval_call :: "runtime \<Rightarrow> json \<Rightarrow> process \<Rightarrow> pyval run \<times> process" where
  \<comment> \<open>\<open>eval(code, global_vars)\<close>, logged\<close>
  "eval_call rt code p =
     (case py_eval rt code p of (r, q) \<Rightarrow> (r, q\<lparr>calls := calls p @ [EvalCall code]\<rparr>))"

definition exec_call :: "runtime \<Rightarrow> json \<Rightarrow> process \<Rightarrow> unit run \<times> process" where
  \<comment> \<open>\<open>exec(code, global_vars)\<close>, logged\<close>
  "exec_call rt code p =
     (case py_exec rt code p of (r, q) \<Rightarrow> (r, q\<lparr>calls := calls p @ [ExecCall code]\<rparr>))"

definition captured :: "runtime \<Rightarrow> nat \<Rightarrow> nat \<Rightarrow> process \<Rightarrow> (string \<times> string) outcome" where
  \<comment> \<open>\<open>stdout.getvalue()\<close>, then \<open>stderr.getvalue()\<close>\<close>
  "captured rt out err p =
     (case getvalue (closed_error rt) out p of
        Raise x \<Rightarrow> Raise x
      | Return a \<Rightarrow> (case getvalue (closed_error rt) err p of Raise x \<Rightarrow> Raise x | Return b \<Rightarrow> Return (a, b)))"

definition on_exception ::
  "runtime \<Rightarrow> nat \<Rightarrow> nat \<Rightarrow> exn \<Rightarrow> process \<Rightarrow> exec_result outcome \<times> process" where
  \<comment> \<open>lines 50 to 57: \<open>except Exception as e\<close>; an exception raised in the handler
      leaves the function\<close>
  "on_exception rt out err e p =
     (if is_exception e then
        (case captured rt out err p of
           Raise x \<Rightarrow> (Raise x, p)
         | Return (a, b) \<Rightarrow>
             (Return \<lparr>r_success = False, r_output = a, r_error = b @ [nl] @ format_exc rt e,
                      r_result = None\<rparr>, p))
      else (Raise e, p))"

definition statement_path ::
  "runtime \<Rightarrow> json \<Rightarrow> nat \<Rightarrow> nat \<Rightarrow> process \<Rightarrow> exec_result outcome \<times> process" where
  \<comment> \<open>lines 41 to 49: the body of \<open>except SyntaxError\<close>, inside the outer \<open>try\<close>\<close>
  "statement_path rt code out err p =
     (case exec_call rt code p of
        (r, q) \<Rightarrow>
          (case as_outcome r of
             Raise e \<Rightarrow> on_exception rt out err e q
           | Return u \<Rightarrow>
               (case captured rt out err q of
                  Raise x \<Rightarrow> on_exception rt out err x q
                | Return (a, b) \<Rightarrow>
                    (Return \<lparr>r_success = True, r_output = a, r_error = b, r_result = None\<rparr>, q))))"

definition expression_path ::
  "runtime \<Rightarrow> json \<Rightarrow> nat \<Rightarrow> nat \<Rightarrow> process \<Rightarrow> exec_result outcome \<times> process" where
  \<comment> \<open>lines 34 to 40: the body of the inner \<open>try\<close>; \<open>Raise\<close> is an exception raised in
      it, not yet matched against the \<open>except\<close> clauses\<close>
  "expression_path rt code out err p =
     (case eval_call rt code p of
        (r, q) \<Rightarrow>
          (case as_outcome r of
             Raise e \<Rightarrow> (Raise e, q)
           | Return v \<Rightarrow>
               (case captured rt out err q of
                  Raise x \<Rightarrow> (Raise x, q)
                | Return (a, b) \<Rightarrow>
                    (if v = PNone
                     then (Return \<lparr>r_success = True, r_output = a, r_error = b, r_result = None\<rparr>, q)
                     else (case py_repr rt v q of
                             (Raise x, q') \<Rightarrow> (Raise x, q')
                           | (Return s, q') \<Rightarrow>
                               (Return \<lparr>r_success = True, r_output = a, r_error = b,
                                        r_result = Some s\<rparr>, q'))))))"

definition try_block ::
  "runtime \<Rightarrow> json \<Rightarrow> nat \<Rightarrow> nat \<Rightarrow> process \<Rightarrow> exec_result outcome \<times> process" where
  \<comment> \<open>lines 31 to 57\<close>
  "try_block rt code out err p =
     (case expression_path rt code out err p of
        (Return r, q) \<Rightarrow> (Return r, q)
      | (Raise e, q) \<Rightarrow>
          (if is_syntax_error e then statement_path rt code out err q
           else on_exception rt out err e q))"

definition capture_enter :: "process \<Rightarrow> nat \<times> nat \<times> process" where
  \<comment> \<open>lines 20 to 23 of \<open>capture_output\<close>: two new buffers, and \<open>sys.stdout\<close> and
      \<open>sys.stderr\<close> set to them\<close>
  "capture_enter p =
     (case StringIO p of
        (new_out, p1) \<Rightarrow>
          (case StringIO p1 of
             (new_err, p2) \<Rightarrow>
               (new_out, new_err, p2\<lparr>sys_stdout := new_out, sys_stderr := new_err\<rparr>)))"

definition execute_python :: "runtime \<Rightarrow> json \<Rightarrow> process \<Rightarrow> exec_result outcome \<times> process" where
  \<comment> \<open>lines 28 to 57, with \<open>capture_output\<close> (lines 17 to 26) around the \<open>try\<close>:
      \<open>old_out\<close> and \<open>old_err\<close> are what the slots held on entry, and the \<open>finally\<close> puts
      them back on return and on exception alike\<close>
  "execute_python rt code p =
     (case capture_enter p of
        (new_out, new_err, p3) \<Rightarrow>
          (case try_block rt code new_out new_err p3 of
             (r, p4) \<Rightarrow> (r, p4\<lparr>sys_stdout := sys_stdout p, sys_stderr := sys_stderr p\<rparr>)))"

subsection \<open>\<open>handle_message\<close>\<close>

definition type_name :: "json \<Rightarrow> string" where
  \<comment> \<open>\<open>type(v).__name__\<close>\<close>
  "type_name v =
     (case v of
        JNull \<Rightarrow> ''NoneType'' | JBool b \<Rightarrow> ''bool'' | JInt i \<Rightarrow> ''int'' | JFloat r \<Rightarrow> ''float''
      | JStr s \<Rightarrow> ''str'' | JArr xs \<Rightarrow> ''list'' | JObj kvs \<Rightarrow> ''dict'')"

definition attribute_error :: "json \<Rightarrow> exn" where
  \<comment> \<open>what \<open>v.get\<close> raises when \<open>v\<close> is no dict\<close>
  "attribute_error v =
     \<lparr>exn_kind = OtherException, exn_name = ''AttributeError'',
      exn_str = [sq] @ type_name v @ [sq] @ '' object has no attribute '' @ [sq] @ ''get'' @ [sq]\<rparr>"

definition dict_get :: "(string \<times> json) list \<Rightarrow> string \<Rightarrow> json \<Rightarrow> json" where
  \<comment> \<open>\<open>d.get(k, dflt)\<close> on a dict\<close>
  "dict_get d k dflt = (case map_of d k of Some x \<Rightarrow> x | None \<Rightarrow> dflt)"

definition jget :: "json \<Rightarrow> string \<Rightarrow> json \<Rightarrow> json outcome" where
  \<comment> \<open>\<open>v.get(k, dflt)\<close> on any value: only a dict has the method\<close>
  "jget v k dflt =
     (case v of
        JObj d \<Rightarrow> Return (dict_get d k dflt)
      | _ \<Rightarrow> Raise (attribute_error v))"

definition py_str :: "runtime \<Rightarrow> json \<Rightarrow> string" where
  \<comment> \<open>\<open>str(v)\<close>, as the f-string formats \<open>tool_name\<close>\<close>
  "py_str rt v =
     (case v of
        JStr s \<Rightarrow> s
      | JNull \<Rightarrow> ''None''
      | JBool b \<Rightarrow> (if b then ''True'' else ''False'')
      | JInt i \<Rightarrow> str_int i
      | _ \<Rightarrow> other_str rt v)"

definition result_json :: "exec_result \<Rightarrow> json" where
  "result_json r =
     JObj [(''success'', JBool (r_success r)),
           (''output'', JStr (r_output r)),
           (''error'', JStr (r_error r)),
           (''result'', (case r_result r of None \<Rightarrow> JNull | Some s \<Rightarrow> JStr s))]"

definition dict_keys :: "json \<Rightarrow> string list" where
  \<comment> \<open>\<open>list(v.keys())\<close> of a dict\<close>
  "dict_keys v = (case v of JObj kvs \<Rightarrow> map fst kvs | _ \<Rightarrow> [])"

definition initialize_result :: json where
  "initialize_result =
     JObj [(''protocolVersion'', JStr ''2024-11-05''),
           (''capabilities'', JObj []),
           (''serverInfo'', JObj [(''name'', JStr ''python-repl''), (''version'', JStr ''1.0.0'')])]"

definition tools_list_result :: json where
  "tools_list_result =
     JObj [(''tools'', JArr [JObj
       [(''name'', JStr ''execute''),
        (''description'', JStr ''Execute Python code''),
        (''schema'', JObj
          [(''type'', JStr ''object''),
           (''properties'', JObj [(''code'', JObj
              [(''type'', JStr ''string''),
               (''description'', JStr ''The Python code to execute'')])]),
           (''required'', JArr [JStr ''code''])])]])]"

definition success_response :: "json \<Rightarrow> json \<Rightarrow> json" where
  "success_response message_id r = JObj [(''jsonrpc'', JStr ''2.0''), (''id'', message_id), (''result'', r)]"

definition error_response :: "json \<Rightarrow> int \<Rightarrow> string \<Rightarrow> json" where
  "error_response message_id code msg =
     JObj [(''jsonrpc'', JStr ''2.0''), (''id'', message_id),
           (''error'', JObj [(''code'', JInt code), (''message'', JStr msg)])]"

definition dispatch :: "runtime \<Rightarrow> json \<Rightarrow> process \<Rightarrow> json outcome \<times> process" where
  \<comment> \<open>lines 63 to 130: from \<open>message_json\<close> to \<open>response\<close>\<close>
  "dispatch rt message_json p =
     (case jget message_json ''method'' JNull of
        Raise e \<Rightarrow> (Raise e, p)
      | Return method \<Rightarrow>
     (case jget message_json ''params'' (JObj []) of
        Raise e \<Rightarrow> (Raise e, p)
      | Return params \<Rightarrow>
     (case jget message_json ''id'' JNull of
        Raise e \<Rightarrow> (Raise e, p)
      | Return message_id \<Rightarrow>
          if method = JStr ''initialize'' then
            (Return (success_response message_id initialize_result), p)
          else if method = JStr ''tools/list'' then
            (Return (success_response message_id tools_list_result), p)
          else if method = JStr ''tools/execute'' then
            (case jget params ''tool'' JNull of
               Raise e \<Rightarrow> (Raise e, p)
             | Return tool_name \<Rightarrow>
            (case jget params ''arguments'' (JObj []) of
               Raise e \<Rightarrow> (Raise e, p)
             | Return args \<Rightarrow>
                 if tool_name = JStr ''execute'' then
                   (case jget args ''code'' (JStr []) of
                      Raise e \<Rightarrow> (Raise e, p)
                    | Return code \<Rightarrow>
                        (case execute_python rt code p of
                           (Raise e, q) \<Rightarrow> (Raise e, q)
                         | (Return r, q) \<Rightarrow>
                             (Return (success_response message_id (result_json r)), q)))
                 else
                   (Return (error_response message_id (- 32601)
                              (''Tool not found: '' @ py_str rt tool_name)), p)))
          else (Return (success_response message_id (JObj [])), p))))"

definition except_handler :: "json option \<Rightarrow> exn \<Rightarrow> process \<Rightarrow> string outcome \<times> process" where
  \<comment> \<open>lines 133 to 143: \<open>except Exception as e\<close>; \<open>message_json\<close> is a local variable only
      once \<open>json.loads\<close> has returned\<close>
  "except_handler message_json e p =
     (if is_exception e then
        (case (case message_json of None \<Rightarrow> Return JNull | Some mj \<Rightarrow> jget mj ''id'' JNull) of
           Raise x \<Rightarrow> (Raise x, p)
         | Return i \<Rightarrow> (Return (json_dumps (error_response i (- 32603) (exn_str e))), p))
      else (Raise e, p))"

definition handle_message :: "runtime \<Rightarrow> string \<Rightarrow> process \<Rightarrow> string outcome \<times> process" where
  \<comment> \<open>lines 59 to 143\<close>
  "handle_message rt message p =
     (case json_loads rt message of
        Raise e \<Rightarrow> except_handler None e p
      | Return message_json \<Rightarrow>
          (case dispatch rt message_json p of
             (Return response, q) \<Rightarrow> (Return (json_dumps response), q)
           | (Raise e, q) \<Rightarrow> except_handler (Some message_json) e q))"

subsection \<open>\<open>main\<close>\<close>

datatype step = Break | Skipped | Served | Crash exn

definition index_error :: exn where
  "index_error = \<lparr>exn_kind = OtherException, exn_name = ''IndexError'',
                  exn_str = ''list index out of range''\<rparr>"

definition send :: "runtime \<Rightarrow> string \<Rightarrow> process \<Rightarrow> unit outcome \<times> process" where
  \<comment> \<open>lines 174 to 176: the two writes to \<open>sys.stdout\<close>\<close>
  "send rt response p =
     (case stream_write (closed_error rt) (sys_stdout p)
             (''Content-Length: '' @ str_nat (length response) @ [cr, nl, cr, nl]) p of
        (Raise e, q) \<Rightarrow> (Raise e, q)
      | (Return u, q) \<Rightarrow> stream_write (closed_error rt) (sys_stdout q) response q)"

definition main_step :: "runtime \<Rightarrow> process \<Rightarrow> step \<times> process" where
  \<comment> \<open>lines 153 to 176: one turn of the \<open>while True\<close> loop\<close>
  "main_step rt p =
     (case readline p of
        (l, p1) \<Rightarrow>
          (let content_length_line = strip l in
           if content_length_line = [] then (Break, p1)
           else if \<not> startswith content_length_line ''Content-Length:'' then (Skipped, p1)
           else
             (case split_colon_1 content_length_line of
                None \<Rightarrow> (Crash index_error, p1)
              | Some field \<Rightarrow>
                  (case py_int rt (strip field) of
                     Raise e \<Rightarrow> (Crash e, p1)
                   | Return content_length \<Rightarrow>
                       (case readline p1 of
                          (blank, p2) \<Rightarrow>
                            (case read content_length p2 of
                               (message, p3) \<Rightarrow>
                                 (case handle_message rt message p3 of
                                    (Raise e, p4) \<Rightarrow> (Crash e, p4)
                                  | (Return response, p4) \<Rightarrow>
                                      (case send rt response p4 of
                                         (Raise e, p5) \<Rightarrow> (Crash e, p5)
                                       | (Return u, p5) \<Rightarrow> (Served, p5)))))))))"

datatype exit = Clean | Uncaught exn

partial_function (option) serve :: "runtime \<Rightarrow> process \<Rightarrow> (exit \<times> process) option" where
  "serve rt p =
     (case main_step rt p of
        (Break, q) \<Rightarrow> Some (Clean, q)
      | (Skipped, q) \<Rightarrow> serve rt q
      | (Served, q) \<Rightarrow> serve rt q
      | (Crash e, q) \<Rightarrow> Some (Uncaught e, q))"

definition main :: "runtime \<Rightarrow> process \<Rightarrow> (exit \<times> process) option" where
  \<comment> \<open>lines 145 to 176: \<open>state = {}\<close>, then the loop; \<open>None\<close> when the loop never ends\<close>
  "main rt p = serve rt (p\<lparr>session := []\<rparr>)"

text \<open>
  Two readings of the loop body, for stating what a turn does. \<open>next_frame\<close> is lines 154
  to 168 when the header is accepted: the message read and the process after reading it.
  \<open>framed\<close> is the text that lines 174 and 175 write for a response.
\<close>

definition next_frame :: "runtime \<Rightarrow> process \<Rightarrow> (string \<times> process) option" where
  "next_frame rt p =
     (case readline p of
        (l, p1) \<Rightarrow>
          (if strip l = [] then None
           else if startswith (strip l) ''Content-Length:'' then
             (case split_colon_1 (strip l) of
                None \<Rightarrow> None
              | Some field \<Rightarrow>
                  (case py_int rt (strip field) of
                     Raise e \<Rightarrow> None
                   | Return content_length \<Rightarrow>
                       (case readline p1 of (blank, p2) \<Rightarrow> Some (read content_length p2))))
           else None))"

definition framed :: "string \<Rightarrow> string" where
  "framed response =
     ''Content-Length: '' @ str_nat (length response) @ [cr, nl, cr, nl] @ response"

section \<open>An executable runtime: CPython on a fragment\<close>

text \<open>
  \<open>cpy tx\<close> is a runtime that computes. It follows CPython on these inputs:
  \<^item> JSON documents made of \<open>null\<close>, \<open>true\<close>, \<open>false\<close>, integers, strings without
    backslash escapes, arrays and objects;
  \<^item> Python expressions \<open>a + b + ...\<close> whose operands are a decimal literal, a
    one-letter name, \<open>print(x)\<close> with \<open>x\<close> a literal or a one-letter name,
    \<open>eval('...')\<close>, or \<open>__import__('sys').__stdout__.write('...')\<close>, with string
    literals in single quotes and without escapes;
  \<^item> Python statements: the empty text, an expression, \<open>x = expression\<close> with a
    one-letter \<open>x\<close>, and \<open>raise SystemExit\<close>;
  \<^item> sessions that bind one-letter names (and \<open>__builtins__\<close>) to \<open>None\<close> or integers.
  Outside the fragment it rejects the input, where CPython may accept it; the theorems
  below apply it to inputs of the fragment only. Wording that changes with the CPython
  version or the installation (messages of syntax and decoding errors, the lines of a
  traceback) is the parameter \<open>tx\<close>.
\<close>

record texts =
  decode_msg :: "string \<Rightarrow> string"
  syntax_msg :: "string \<Rightarrow> string"
  int_msg :: "string \<Rightarrow> string"
  trace_text :: "exn \<Rightarrow> string"
  str_text :: "json \<Rightarrow> string"
  obj_text :: "nat \<Rightarrow> string"
  closed_msg :: string

subsection \<open>Dictionaries\<close>

definition dict_set :: "'k \<Rightarrow> 'v \<Rightarrow> ('k \<times> 'v) list \<Rightarrow> ('k \<times> 'v) list" where
  \<comment> \<open>\<open>d[k] = v\<close>: a present key keeps its place, a new key goes last\<close>
  "dict_set k v d =
     (if map_of d k = None then d @ [(k, v)]
      else map (\<lambda>kv. if fst kv = k then (k, v) else kv) d)"

subsection \<open>\<open>json.loads\<close> on the fragment\<close>

definition is_json_ws :: "char \<Rightarrow> bool" where
  "is_json_ws c = (c = CHR '' '' \<or> c = CHR 0x09 \<or> c = nl \<or> c = cr)"

definition is_digit :: "char \<Rightarrow> bool" where
  "is_digit c = (48 \<le> (of_char c :: nat) \<and> (of_char c :: nat) \<le> 57)"

definition nat_of_digits :: "string \<Rightarrow> nat" where
  "nat_of_digits ds = foldl (\<lambda>n c. 10 * n + ((of_char c :: nat) - 48)) 0 ds"

definition parse_string :: "string \<Rightarrow> (string \<times> string) option" where
  \<comment> \<open>after the opening quote: the characters up to the closing quote\<close>
  "parse_string cs =
     (let body = takeWhile (\<lambda>c. c \<noteq> dq) cs in
      case dropWhile (\<lambda>c. c \<noteq> dq) cs of
        [] \<Rightarrow> None
      | _ # r \<Rightarrow>
          (if list_ex (\<lambda>c. c = bsl \<or> (of_char c :: nat) < 32) body then None
           else Some (body, r)))"

definition parse_number :: "string \<Rightarrow> (json \<times> string) option" where
  "parse_number cs =
     (let neg = (take 1 cs = ''-'');
          u = (if neg then drop 1 cs else cs);
          ds = takeWhile is_digit u;
          r = dropWhile is_digit u
      in if ds = [] \<or> (take 1 ds = ''0'' \<and> length ds > 1) then None
         else Some (JInt (if neg then - int (nat_of_digits ds) else int (nat_of_digits ds)), r))"

fun parse_value :: "nat \<Rightarrow> string \<Rightarrow> (json \<times> string) option"
  and parse_elems :: "nat \<Rightarrow> string \<Rightarrow> (json list \<times> string) option"
  and parse_members :: "nat \<Rightarrow> string \<Rightarrow> ((string \<times> json) list \<times> string) option"
where
  "parse_value 0 cs = None"
| "parse_value (Suc n) cs =
     (case dropWhile is_json_ws cs of
        [] \<Rightarrow> None
      | c # r \<Rightarrow>
          if take 4 (c # r) = ''null'' then Some (JNull, drop 4 (c # r))
          else if take 4 (c # r) = ''true'' then Some (JBool True, drop 4 (c # r))
          else if take 5 (c # r) = ''false'' then Some (JBool False, drop 5 (c # r))
          else if c = dq then
            (case parse_string r of None \<Rightarrow> None | Some (t, r') \<Rightarrow> Some (JStr t, r'))
          else if c = CHR ''['' then
            (if take 1 (dropWhile is_json_ws r) = '']''
             then Some (JArr [], drop 1 (dropWhile is_json_ws r))
             else (case parse_elems n r of None \<Rightarrow> None | Some (xs, r') \<Rightarrow> Some (JArr xs, r')))
          else if c = CHR ''{'' then
            (if take 1 (dropWhile is_json_ws r) = ''}''
             then Some (JObj [], drop 1 (dropWhile is_json_ws r))
             else (case parse_members n r of
                     None \<Rightarrow> None
                   | Some (kvs, r') \<Rightarrow>
                       Some (JObj (foldl (\<lambda>d kv. dict_set (fst kv) (snd kv) d) [] kvs), r')))
          else parse_number (c # r))"
| "parse_elems 0 cs = None"
| "parse_elems (Suc n) cs =
     (case parse_value n cs of
        None \<Rightarrow> None
      | Some (v, r) \<Rightarrow>
          (case dropWhile is_json_ws r of
             [] \<Rightarrow> None
           | c # r' \<Rightarrow>
               if c = CHR '']'' then Some ([v], r')
               else if c = CHR '','' then
                 (case parse_elems n r' of None \<Rightarrow> None | Some (vs, r'') \<Rightarrow> Some (v # vs, r''))
               else None))"
| "parse_members 0 cs = None"
| "parse_members (Suc n) cs =
     (case dropWhile is_json_ws cs of
        [] \<Rightarrow> None
      | c # r \<Rightarrow>
          if c \<noteq> dq then None
          else
            (case parse_string r of
               None \<Rightarrow> None
             | Some (k, r1) \<Rightarrow>
                 (case dropWhile is_json_ws r1 of
                    [] \<Rightarrow> None
                  | c1 # r2 \<Rightarrow>
                      if c1 \<noteq> CHR '':'' then None
                      else
                        (case parse_value n r2 of
                           None \<Rightarrow> None
                         | Some (v, r3) \<Rightarrow>
                             (case dropWhile is_json_ws r3 of
                                [] \<Rightarrow> None
                              | c3 # r4 \<Rightarrow>
                                  if c3 = CHR ''}'' then Some ([(k, v)], r4)
                                  else if c3 = CHR '','' then
                                    (case parse_members n r4 of
                                       None \<Rightarrow> None
                                     | Some (kvs, r5) \<Rightarrow> Some ((k, v) # kvs, r5))
                                  else None)))))"

definition json_decode :: "string \<Rightarrow> json option" where
  "json_decode s =
     (case parse_value (Suc (length s)) s of
        None \<Rightarrow> None
      | Some (v, r) \<Rightarrow> (if dropWhile is_json_ws r = [] then Some v else None))"

definition cpy_loads :: "texts \<Rightarrow> string \<Rightarrow> json outcome" where
  "cpy_loads tx s =
     (case json_decode s of
        Some v \<Rightarrow> Return v
      | None \<Rightarrow> Raise \<lparr>exn_kind = OtherException, exn_name = ''JSONDecodeError'',
                       exn_str = decode_msg tx s\<rparr>)"

subsection \<open>\<open>eval\<close> and \<open>exec\<close> on the fragment\<close>

datatype tok = TNum nat | TName string | TStr string | TPlus | TEq | TLPar | TRPar | TDot

definition is_letter :: "char \<Rightarrow> bool" where
  "is_letter c =
     ((65 \<le> (of_char c :: nat) \<and> (of_char c :: nat) \<le> 90)
      \<or> (97 \<le> (of_char c :: nat) \<and> (of_char c :: nat) \<le> 122))"

definition is_name_start :: "char \<Rightarrow> bool" where
  "is_name_start c = (is_letter c \<or> c = CHR ''_'')"

definition is_name_char :: "char \<Rightarrow> bool" where
  "is_name_char c = (is_name_start c \<or> is_digit c)"

datatype lexst = Idle | InNum string | InName string | InStr string

definition finish :: "lexst \<Rightarrow> tok list option" where
  \<comment> \<open>the token under way when the text or the token ends; a literal such as \<open>01\<close> is
      no Python 3 literal\<close>
  "finish st =
     (case st of
        Idle \<Rightarrow> Some []
      | InNum ds \<Rightarrow>
          (if take 1 ds = ''0'' \<and> list_ex (\<lambda>c. c \<noteq> CHR ''0'') ds then None
           else Some [TNum (nat_of_digits ds)])
      | InName n \<Rightarrow> Some [TName n]
      | InStr t \<Rightarrow> None)"

definition punct :: "char \<Rightarrow> tok option" where
  "punct c =
     (if c = CHR ''+'' then Some TPlus else if c = CHR ''='' then Some TEq
      else if c = CHR ''('' then Some TLPar else if c = CHR '')'' then Some TRPar
      else if c = CHR ''.'' then Some TDot else None)"

definition start :: "char \<Rightarrow> (tok list \<times> lexst) option" where
  \<comment> \<open>a character met between tokens: the tokens it completes and the state it leaves\<close>
  "start c =
     (if c = CHR '' '' then Some ([], Idle)
      else if is_digit c then Some ([], InNum [c])
      else if is_name_start c then Some ([], InName [c])
      else if c = sq then Some ([], InStr [])
      else (case punct c of None \<Rightarrow> None | Some t \<Rightarrow> Some ([t], Idle)))"

definition after :: "lexst \<Rightarrow> char \<Rightarrow> (tok list \<times> lexst) option" where
  \<comment> \<open>a character that ends the token under way\<close>
  "after st c =
     (case finish st of
        None \<Rightarrow> None
      | Some ts \<Rightarrow> (case start c of None \<Rightarrow> None | Some (us, st') \<Rightarrow> Some (ts @ us, st')))"

definition lex_step :: "lexst \<Rightarrow> char \<Rightarrow> (tok list \<times> lexst) option" where
  "lex_step st c =
     (case st of
        Idle \<Rightarrow> start c
      | InNum ds \<Rightarrow>
          (if is_digit c then Some ([], InNum (ds @ [c]))
           else if is_name_start c then None
           else after st c)
      | InName n \<Rightarrow> (if is_name_char c then Some ([], InName (n @ [c])) else after st c)
      | InStr t \<Rightarrow>
          (if c = sq then Some ([TStr t], Idle)
           else if c = bsl \<or> (of_char c :: nat) < 32 then None
           else Some ([], InStr (t @ [c]))))"

fun lex :: "lexst \<Rightarrow> string \<Rightarrow> tok list option" where
  "lex st [] = finish st"
| "lex st (c # cs) =
     (case lex_step st c of
        None \<Rightarrow> None
      | Some (ts, st') \<Rightarrow> map_option (append ts) (lex st' cs))"

datatype operand = ONum nat | OVar string

datatype simple = SOperand operand | SPrint operand

datatype atom = Simple simple | EvalStr string | WriteOrig string

definition is_var :: "string \<Rightarrow> bool" where
  \<comment> \<open>a one-letter name: no keyword and no builtin\<close>
  "is_var x = (length x = 1 \<and> list_all is_letter x)"

definition parse_operand :: "tok \<Rightarrow> operand option" where
  "parse_operand t =
     (case t of
        TNum n \<Rightarrow> Some (ONum n)
      | TName x \<Rightarrow> (if is_var x then Some (OVar x) else None)
      | _ \<Rightarrow> None)"

fun one_arg :: "tok list \<Rightarrow> tok option" where
  "one_arg [t, TRPar] = Some t"
| "one_arg ts = None"

fun str_arg :: "tok list \<Rightarrow> string option" where
  "str_arg [TStr t, TRPar] = Some t"
| "str_arg ts = None"

definition parse_simple :: "tok list \<Rightarrow> simple option" where
  "parse_simple ts =
     (if take 2 ts = [TName ''print'', TLPar] then
        (case one_arg (drop 2 ts) of
           None \<Rightarrow> None
         | Some t \<Rightarrow> map_option SPrint (parse_operand t))
      else (case ts of [t] \<Rightarrow> map_option SOperand (parse_operand t) | _ \<Rightarrow> None))"

definition parse_atom :: "tok list \<Rightarrow> atom option" where
  "parse_atom ts =
     (if take 2 ts = [TName ''eval'', TLPar] then map_option EvalStr (str_arg (drop 2 ts))
      else if take 9 ts = [TName ''__import__'', TLPar, TStr ''sys'', TRPar, TDot,
                           TName ''__stdout__'', TDot, TName ''write'', TLPar]
      then map_option WriteOrig (str_arg (drop 9 ts))
      else map_option Simple (parse_simple ts))"

fun split_plus :: "tok list \<Rightarrow> tok list list" where
  "split_plus [] = [[]]"
| "split_plus (t # ts) =
     (case split_plus ts of
        [] \<Rightarrow> [[t]]
      | seg # segs \<Rightarrow> (if t = TPlus then [] # seg # segs else (t # seg) # segs))"

definition parse_sum :: "(tok list \<Rightarrow> 'a option) \<Rightarrow> tok list \<Rightarrow> ('a \<times> 'a list) option" where
  \<comment> \<open>\<open>a + b + ...\<close>: at least one operand, each parsed by \<open>pa\<close>\<close>
  "parse_sum pa ts =
     (case those (map pa (split_plus ts)) of
        None \<Rightarrow> None
      | Some [] \<Rightarrow> None
      | Some (a # as) \<Rightarrow> Some (a, as))"

definition syntax_error :: "texts \<Rightarrow> string \<Rightarrow> exn" where
  "syntax_error tx s = \<lparr>exn_kind = SyntaxErr, exn_name = ''SyntaxError'', exn_str = syntax_msg tx s\<rparr>"

definition indentation_error :: exn where
  "indentation_error = \<lparr>exn_kind = SyntaxErr, exn_name = ''IndentationError'',
                        exn_str = ''unexpected indent (<string>, line 1)''\<rparr>"

definition name_error :: "string \<Rightarrow> exn" where
  "name_error x = \<lparr>exn_kind = OtherException, exn_name = ''NameError'',
                   exn_str = ''name '' @ [sq] @ x @ [sq] @ '' is not defined''\<rparr>"

definition val_type :: "pyval \<Rightarrow> string" where
  "val_type v = (case v of PNone \<Rightarrow> ''NoneType'' | PInt i \<Rightarrow> ''int'' | PObj n \<Rightarrow> ''object'')"

definition add_error :: "pyval \<Rightarrow> pyval \<Rightarrow> exn" where
  "add_error v w =
     \<lparr>exn_kind = OtherException, exn_name = ''TypeError'',
      exn_str = ''unsupported operand type(s) for +: '' @ [sq] @ val_type v @ [sq] @ '' and ''
                @ [sq] @ val_type w @ [sq]\<rparr>"

definition source_error :: "string \<Rightarrow> exn" where
  "source_error f =
     \<lparr>exn_kind = OtherException, exn_name = ''TypeError'',
      exn_str = f @ ''() arg 1 must be a string, bytes or code object''\<rparr>"

definition system_exit :: exn where
  "system_exit = \<lparr>exn_kind = NonException, exn_name = ''SystemExit'', exn_str = []\<rparr>"

definition closed_file :: "texts \<Rightarrow> exn" where
  "closed_file tx = \<lparr>exn_kind = OtherException, exn_name = ''ValueError'', exn_str = closed_msg tx\<rparr>"

definition py_add :: "pyval \<Rightarrow> pyval \<Rightarrow> pyval outcome" where
  "py_add v w =
     (case v of
        PInt i \<Rightarrow> (case w of PInt j \<Rightarrow> Return (PInt (i + j)) | _ \<Rightarrow> Raise (add_error v w))
      | _ \<Rightarrow> Raise (add_error v w))"

definition val_str :: "texts \<Rightarrow> pyval \<Rightarrow> string" where
  \<comment> \<open>\<open>str(v)\<close>, which is \<open>repr(v)\<close> for these values\<close>
  "val_str tx v = (case v of PNone \<Rightarrow> ''None'' | PInt i \<Rightarrow> str_int i | PObj n \<Rightarrow> obj_text tx n)"

definition eval_operand :: "operand \<Rightarrow> process \<Rightarrow> pyval outcome" where
  "eval_operand a p =
     (case a of
        ONum n \<Rightarrow> Return (PInt (int n))
      | OVar x \<Rightarrow> (case map_of (session p) x of Some v \<Rightarrow> Return v | None \<Rightarrow> Raise (name_error x)))"

definition eval_simple :: "texts \<Rightarrow> simple \<Rightarrow> process \<Rightarrow> pyval outcome \<times> process" where
  \<comment> \<open>\<open>print(x)\<close> writes \<open>str(x)\<close> and a newline to what \<open>sys.stdout\<close> holds at that moment\<close>
  "eval_simple tx a p =
     (case a of
        SOperand x \<Rightarrow> (eval_operand x p, p)
      | SPrint x \<Rightarrow>
          (case eval_operand x p of
             Raise e \<Rightarrow> (Raise e, p)
           | Return v \<Rightarrow>
               (case stream_write (closed_file tx) (sys_stdout p) (val_str tx v @ [nl]) p of
                  (Raise e, q) \<Rightarrow> (Raise e, q)
                | (Return u, q) \<Rightarrow> (Return PNone, q))))"

fun eval_rest ::
  "('a \<Rightarrow> process \<Rightarrow> pyval outcome \<times> process) \<Rightarrow> pyval \<Rightarrow> 'a list \<Rightarrow> process
     \<Rightarrow> pyval outcome \<times> process" where
  "eval_rest ev acc [] p = (Return acc, p)"
| "eval_rest ev acc (a # as) p =
     (case ev a p of
        (Raise e, q) \<Rightarrow> (Raise e, q)
      | (Return v, q) \<Rightarrow>
          (case py_add acc v of Raise e \<Rightarrow> (Raise e, q) | Return w \<Rightarrow> eval_rest ev w as q))"

definition eval_sum ::
  "('a \<Rightarrow> process \<Rightarrow> pyval outcome \<times> process) \<Rightarrow> 'a \<times> 'a list \<Rightarrow> process
     \<Rightarrow> pyval outcome \<times> process" where
  \<comment> \<open>operands from left to right, each sum taken before the next operand is evaluated\<close>
  "eval_sum ev e p =
     (case ev (fst e) p of (Raise x, q) \<Rightarrow> (Raise x, q) | (Return v, q) \<Rightarrow> eval_rest ev v (snd e) q)"

definition eval_atom :: "texts \<Rightarrow> atom \<Rightarrow> process \<Rightarrow> pyval outcome \<times> process" where
  \<comment> \<open>the text given to a nested \<open>eval\<close> holds no quote, hence no string literal: its
      operands are simple\<close>
  "eval_atom tx a p =
     (case a of
        Simple x \<Rightarrow> eval_simple tx x p
      | EvalStr t \<Rightarrow>
          (case lex Idle t of
             None \<Rightarrow> (Raise (syntax_error tx t), p)
           | Some ts \<Rightarrow>
               (case parse_sum parse_simple ts of
                  None \<Rightarrow> (Raise (syntax_error tx t), p)
                | Some e \<Rightarrow> eval_sum (eval_simple tx) e p))
      | WriteOrig t \<Rightarrow>
          (case stream_write (closed_file tx) (sys_orig_stdout p) t p of
             (Raise e, q) \<Rightarrow> (Raise e, q)
           | (Return u, q) \<Rightarrow> (Return (PInt (int (length t))), q)))"

definition with_builtins :: "process \<Rightarrow> process" where
  \<comment> \<open>\<open>eval\<close> and \<open>exec\<close> put \<open>__builtins__\<close> into the globals they are given, first of all\<close>
  "with_builtins p =
     (if map_of (session p) ''__builtins__'' = None
      then p\<lparr>session := session p @ [(''__builtins__'', PObj 0)]\<rparr> else p)"

definition cpy_eval :: "texts \<Rightarrow> json \<Rightarrow> process \<Rightarrow> pyval run \<times> process" where
  "cpy_eval tx code p =
     (case code of
        JStr s \<Rightarrow>
          (case lex Idle s of
             None \<Rightarrow> (Rejected (syntax_error tx s), with_builtins p)
           | Some ts \<Rightarrow>
               (case parse_sum parse_atom ts of
                  None \<Rightarrow> (Rejected (syntax_error tx s), with_builtins p)
                | Some e \<Rightarrow>
                    (case eval_sum (eval_atom tx) e (with_builtins p) of (r, q) \<Rightarrow> (Ran r, q))))
      | _ \<Rightarrow> (Rejected (source_error ''eval''), with_builtins p))"

fun assign_target :: "tok list \<Rightarrow> (string \<times> tok list) option" where
  "assign_target (TName x # TEq # rest) = Some (x, rest)"
| "assign_target ts = None"

definition exec_expression :: "texts \<Rightarrow> string \<Rightarrow> tok list \<Rightarrow> process \<Rightarrow> unit run \<times> process" where
  \<comment> \<open>an expression as a statement: its value is dropped\<close>
  "exec_expression tx s ts p =
     (case parse_sum parse_atom ts of
        None \<Rightarrow> (Rejected (syntax_error tx s), p)
      | Some e \<Rightarrow>
          (case eval_sum (eval_atom tx) e p of
             (Raise x, q) \<Rightarrow> (Ran (Raise x), q)
           | (Return v, q) \<Rightarrow> (Ran (Return ()), q)))"

definition exec_assign ::
  "texts \<Rightarrow> string \<Rightarrow> string \<Rightarrow> tok list \<Rightarrow> process \<Rightarrow> unit run \<times> process" where
  \<comment> \<open>\<open>x = expression\<close>\<close>
  "exec_assign tx s x rest p =
     (if \<not> is_var x then (Rejected (syntax_error tx s), p)
      else
        (case parse_sum parse_atom rest of
           None \<Rightarrow> (Rejected (syntax_error tx s), p)
         | Some e \<Rightarrow>
             (case eval_sum (eval_atom tx) e p of
                (Raise y, q) \<Rightarrow> (Ran (Raise y), q)
              | (Return v, q) \<Rightarrow> (Ran (Return ()), q\<lparr>session := dict_set x v (session q)\<rparr>))))"

definition cpy_exec :: "texts \<Rightarrow> json \<Rightarrow> process \<Rightarrow> unit run \<times> process" where
  "cpy_exec tx code p =
     (case code of
        JStr s \<Rightarrow>
          (case lex Idle s of
             None \<Rightarrow> (Rejected (syntax_error tx s), with_builtins p)
           | Some ts \<Rightarrow>
               (if ts = [] then (Ran (Return ()), with_builtins p)
                else if take 1 s = '' '' then (Rejected indentation_error, with_builtins p)
                else if ts = [TName ''raise'', TName ''SystemExit'']
                then (Ran (Raise system_exit), with_builtins p)
                else (case assign_target ts of
                        Some (x, rest) \<Rightarrow> exec_assign tx s x rest (with_builtins p)
                      | None \<Rightarrow> exec_expression tx s ts (with_builtins p))))
      | _ \<Rightarrow> (Rejected (source_error ''exec''), with_builtins p))"

definition cpy_repr :: "texts \<Rightarrow> pyval \<Rightarrow> process \<Rightarrow> string outcome \<times> process" where
  "cpy_repr tx v p = (Return (val_str tx v), p)"

subsection \<open>\<open>int\<close> on text\<close>

fun split_on :: "char \<Rightarrow> string \<Rightarrow> string list" where
  "split_on d [] = [[]]"
| "split_on d (c # cs) =
     (case split_on d cs of
        [] \<Rightarrow> [[c]]
      | g # gs \<Rightarrow> (if c = d then [] # g # gs else (c # g) # gs))"

definition int_digits :: "string \<Rightarrow> nat option" where
  \<comment> \<open>decimal digits, single underscores allowed between them\<close>
  "int_digits s =
     (if list_all (\<lambda>g. g \<noteq> [] \<and> list_all is_digit g) (split_on (CHR ''_'') s)
      then Some (nat_of_digits (concat (split_on (CHR ''_'') s))) else None)"

definition cpy_int :: "texts \<Rightarrow> string \<Rightarrow> int outcome" where
  "cpy_int tx s =
     (let t = strip s;
          neg = (take 1 t = ''-'');
          u = (if neg \<or> take 1 t = ''+'' then drop 1 t else t)
      in case int_digits u of
           None \<Rightarrow> Raise \<lparr>exn_kind = OtherException, exn_name = ''ValueError'', exn_str = int_msg tx s\<rparr>
         | Some n \<Rightarrow> Return (if neg then - int n else int n))"

subsection \<open>The runtime \<open>cpy\<close>\<close>

definition cpy :: "texts \<Rightarrow> runtime" where
  "cpy tx =
     \<lparr>json_loads = cpy_loads tx, py_eval = cpy_eval tx, py_exec = cpy_exec tx,
      py_repr = cpy_repr tx, format_exc = trace_text tx, other_str = str_text tx,
      py_int = cpy_int tx, closed_error = closed_file tx\<rparr>"

definition tx0 :: texts where
  \<comment> \<open>one choice of wording, for closed statements\<close>
  "tx0 =
     \<lparr>decode_msg = (\<lambda>s. ''Expecting value''),
      syntax_msg = (\<lambda>s. ''invalid syntax''),
      int_msg = (\<lambda>s. ''invalid literal for int() with base 10''),
      trace_text = (\<lambda>e. ''Traceback (most recent call last):'' @ [nl] @ exn_name e @ '': ''
                         @ exn_str e @ [nl]),
      str_text = json_dumps,
      obj_text = (\<lambda>n. ''<object>''),
      closed_msg = ''I/O operation on closed file''\<rparr>"

definition p0 :: process where
  \<comment> \<open>a process at start: the real standard output and standard error are the stream
      objects 0 and 1, nothing written, nothing to read, an empty session\<close>
  "p0 = \<lparr>session = [], objs = [Open [], Open []], sys_stdout = 0, sys_stderr = 1,
         sys_orig_stdout = 0, sys_stdin = [], calls = []\<rparr>"

section \<open>Properties\<close>

subsection \<open>Reading the model\<close>

lemma obj_at_calls [simp]: "obj_at (p\<lparr>calls := c\<rparr>) r = obj_at p r"
  by (simp add: obj_at_def)

lemma getvalue_calls [simp]: "getvalue ce r (p\<lparr>calls := c\<rparr>) = getvalue ce r p"
  by (simp add: getvalue_def)

lemma captured_calls [simp]: "captured rt out err (p\<lparr>calls := c\<rparr>) = captured rt out err p"
  unfolding captured_def getvalue_calls ..

lemma jget_dict [simp]: "jget (JObj d) k dflt = Return (dict_get d k dflt)"
  by (simp add: jget_def)

lemma capture_enter_eq:
  "capture_enter p =
     (length (objs p), Suc (length (objs p)),
      p\<lparr>objs := objs p @ [Open [], Open []], sys_stdout := length (objs p),
        sys_stderr := Suc (length (objs p))\<rparr>)"
  by (simp add: capture_enter_def StringIO_def)

lemma captured_fresh:
  "objs q = xs @ [Open a, Open b] \<Longrightarrow>
   captured rt (length xs) (Suc (length xs)) q = Return (a, b)"
  by (simp add: captured_def getvalue_def obj_at_def nth_append)

lemma handle_message_execute:
  assumes "json_loads rt m = Return (JObj d)"
      and "dict_get d ''method'' JNull = JStr ''tools/execute''"
      and "dict_get d ''params'' (JObj []) = JObj ps"
      and "dict_get ps ''tool'' JNull = JStr ''execute''"
      and "dict_get ps ''arguments'' (JObj []) = JObj as"
  shows "handle_message rt m p =
     (case execute_python rt (dict_get as ''code'' (JStr [])) p of
        (Return r, q) \<Rightarrow>
          (Return (json_dumps (success_response (dict_get d ''id'' JNull) (result_json r))), q)
      | (Raise e, q) \<Rightarrow> except_handler (Some (JObj d)) e q)"
  using assms
  by (simp add: handle_message_def dispatch_def split: prod.splits outcome.splits)

lemma execute_python_eval_raises:
  assumes "capture_enter p = (out, err, p3)"
      and "py_eval rt code p3 = (r, q)"
      and "as_outcome r = Raise e"
      and "\<not> is_syntax_error e"
  shows "execute_python rt code p =
     (case on_exception rt out err e (q\<lparr>calls := calls p3 @ [EvalCall code]\<rparr>) of
        (x, q') \<Rightarrow> (x, q'\<lparr>sys_stdout := sys_stdout p, sys_stderr := sys_stderr p\<rparr>))"
  using assms
  by (simp add: execute_python_def try_block_def expression_path_def eval_call_def)

lemma execute_python_exec_raises:
  assumes "capture_enter p = (out, err, p3)"
      and "py_eval rt code p3 = (Rejected e0, q0)"
      and "is_syntax_error e0"
      and "py_exec rt code (q0\<lparr>calls := calls p3 @ [EvalCall code]\<rparr>) = (r, q)"
      and "as_outcome r = Raise e"
  shows "execute_python rt code p =
     (case on_exception rt out err e (q\<lparr>calls := calls p3 @ [EvalCall code, ExecCall code]\<rparr>) of
        (x, q') \<Rightarrow> (x, q'\<lparr>sys_stdout := sys_stdout p, sys_stderr := sys_stderr p\<rparr>))"
  using assms
  by (simp add: execute_python_def try_block_def expression_path_def eval_call_def
      statement_path_def exec_call_def as_outcome_def)

lemma on_exception_caught:
  "is_exception e \<Longrightarrow> captured rt out err q = Return (a, b) \<Longrightarrow>
   on_exception rt out err e q =
     (Return \<lparr>r_success = False, r_output = a, r_error = b @ [nl] @ format_exc rt e,
              r_result = None\<rparr>, q)"
  by (simp add: on_exception_def)

lemma on_exception_escapes:
  "\<not> is_exception e \<Longrightarrow> on_exception rt out err e q = (Raise e, q)"
  by (simp add: on_exception_def)

lemma not_exception_not_syntax: "\<not> is_exception e \<Longrightarrow> \<not> is_syntax_error e"
  by (simp add: is_exception_def is_syntax_error_def)

subsection \<open>Reading the loop\<close>

lemma obj_at_fields [simp]:
  "obj_at (p\<lparr>sys_stdout := a\<rparr>) r = obj_at p r"
  "obj_at (p\<lparr>sys_stderr := b\<rparr>) r = obj_at p r"
  "obj_at (p\<lparr>sys_stdin := c\<rparr>) r = obj_at p r"
  "obj_at (p\<lparr>session := d\<rparr>) r = obj_at p r"
  by (simp_all add: obj_at_def)

lemma obj_at_written:
  "obj_at p r = Open t \<Longrightarrow> obj_at (p\<lparr>objs := (objs p)[r := x]\<rparr>) r = x"
  by (simp add: obj_at_def split: if_splits)

lemma obj_at_append:
  "obj_at p r = Open t \<Longrightarrow> objs q = objs p @ ys \<Longrightarrow> obj_at q r = Open t"
  by (simp add: obj_at_def nth_append split: if_splits)

lemma send_open:
  assumes "obj_at p (sys_stdout p) = Open t"
  shows "send rt response p =
     (Return (), p\<lparr>objs := (objs p)[sys_stdout p := Open (t @ framed response)]\<rparr>)"
  using assms
  by (simp add: send_def stream_write_def framed_def obj_at_def split: if_splits)

lemma next_frame_cases:
  assumes "next_frame rt p = Some (m, pm)"
  obtains l p1 field n blank p2 where
    "readline p = (l, p1)" "strip l \<noteq> []" "startswith (strip l) ''Content-Length:''"
    "split_colon_1 (strip l) = Some field" "py_int rt (strip field) = Return n"
    "readline p1 = (blank, p2)" "read n p2 = (m, pm)"
proof -
  obtain l p1 where rl: "readline p = (l, p1)"
    by (cases "readline p")
  have a: "(if strip l = [] then None
           else if startswith (strip l) ''Content-Length:'' then
             (case split_colon_1 (strip l) of
                None \<Rightarrow> None
              | Some field \<Rightarrow>
                  (case py_int rt (strip field) of
                     Raise e \<Rightarrow> None
                   | Return content_length \<Rightarrow>
                       (case readline p1 of (blank, p2) \<Rightarrow> Some (read content_length p2))))
           else None) = Some (m, pm)"
    using assms by (simp add: next_frame_def rl)
  have c1: "strip l \<noteq> []"
    using a by (cases "strip l = []") simp_all
  have c2: "startswith (strip l) ''Content-Length:''"
    using a c1 by (cases "startswith (strip l) ''Content-Length:''") simp_all
  have b: "(case split_colon_1 (strip l) of
                None \<Rightarrow> None
              | Some field \<Rightarrow>
                  (case py_int rt (strip field) of
                     Raise e \<Rightarrow> None
                   | Return content_length \<Rightarrow>
                       (case readline p1 of (blank, p2) \<Rightarrow> Some (read content_length p2))))
        = Some (m, pm)"
    using a c1 c2 by simp
  obtain field where f: "split_colon_1 (strip l) = Some field"
    using b by (cases "split_colon_1 (strip l)") simp_all
  have c: "(case py_int rt (strip field) of
                     Raise e \<Rightarrow> None
                   | Return content_length \<Rightarrow>
                       (case readline p1 of (blank, p2) \<Rightarrow> Some (read content_length p2)))
        = Some (m, pm)"
    using b f by simp
  obtain n where n: "py_int rt (strip field) = Return n"
    using c by (cases "py_int rt (strip field)") simp_all
  obtain blank p2 where r2: "readline p1 = (blank, p2)"
    by (cases "readline p1")
  have d: "read n p2 = (m, pm)"
    using c n r2 by simp
  show thesis
    using that [OF rl c1 c2 f n r2 d] .
qed

lemma main_step_next_frame:
  assumes "next_frame rt p = Some (m, pm)"
  shows "main_step rt p =
     (case handle_message rt m pm of
        (Raise e, p4) \<Rightarrow> (Crash e, p4)
      | (Return response, p4) \<Rightarrow>
          (case send rt response p4 of
             (Raise e, p5) \<Rightarrow> (Crash e, p5)
           | (Return u, p5) \<Rightarrow> (Served, p5)))"
proof -
  obtain l p1 field n blank p2 where
    "readline p = (l, p1)" "strip l \<noteq> []" "startswith (strip l) ''Content-Length:''"
    "split_colon_1 (strip l) = Some field" "py_int rt (strip field) = Return n"
    "readline p1 = (blank, p2)" "read n p2 = (m, pm)"
    using assms by (rule next_frame_cases)
  then show ?thesis
    by (simp add: main_step_def Let_def)
qed

lemma readline_fields [simp]:
  "session (snd (readline p)) = session p" "objs (snd (readline p)) = objs p"
  "sys_stdout (snd (readline p)) = sys_stdout p" "sys_stderr (snd (readline p)) = sys_stderr p"
  "sys_orig_stdout (snd (readline p)) = sys_orig_stdout p" "calls (snd (readline p)) = calls p"
  by (simp_all add: readline_def split: list.splits)

lemma read_fields [simp]:
  "session (snd (read n p)) = session p" "objs (snd (read n p)) = objs p"
  "sys_stdout (snd (read n p)) = sys_stdout p" "sys_stderr (snd (read n p)) = sys_stderr p"
  "sys_orig_stdout (snd (read n p)) = sys_orig_stdout p" "calls (snd (read n p)) = calls p"
  by (simp_all add: read_def)

lemma next_frame_fields:
  assumes "next_frame rt p = Some (m, pm)"
  shows "session pm = session p" and "objs pm = objs p" and "sys_stdout pm = sys_stdout p"
    and "sys_stderr pm = sys_stderr p" and "calls pm = calls p"
proof -
  obtain l p1 field n blank p2 where
    "readline p = (l, p1)" "readline p1 = (blank, p2)" "read n p2 = (m, pm)"
    using assms by (rule next_frame_cases)
  then have e: "pm = snd (read n (snd (readline (snd (readline p)))))"
    by simp
  show "session pm = session p" and "objs pm = objs p" and "sys_stdout pm = sys_stdout p"
    and "sys_stderr pm = sys_stderr p" and "calls pm = calls p"
    unfolding e by simp_all
qed

lemma obj_at_next_frame:
  "next_frame rt p = Some (m, pm) \<Longrightarrow> obj_at pm r = obj_at p r"
  by (simp add: obj_at_def next_frame_fields)

lemma served_turn:
  assumes "next_frame rt p = Some (m, pm)"
      and "handle_message rt m pm = (Return response, q)"
      and "obj_at q (sys_stdout q) = Open t"
  shows "main_step rt p =
           (Served, q\<lparr>objs := (objs q)[sys_stdout q := Open (t @ framed response)]\<rparr>)"
    and "serve rt p =
           serve rt (q\<lparr>objs := (objs q)[sys_stdout q := Open (t @ framed response)]\<rparr>)"
proof -
  show 1: "main_step rt p =
           (Served, q\<lparr>objs := (objs q)[sys_stdout q := Open (t @ framed response)]\<rparr>)"
    unfolding main_step_next_frame [OF assms(1)] assms(2)
    by (simp add: send_open [OF assms(3)])
  show "serve rt p =
           serve rt (q\<lparr>objs := (objs q)[sys_stdout q := Open (t @ framed response)]\<rparr>)"
    by (subst serve.simps) (simp add: 1)
qed

lemma crashed_turn:
  assumes "next_frame rt p = Some (m, pm)"
      and "handle_message rt m pm = (Raise e, q)"
  shows "main_step rt p = (Crash e, q)" and "serve rt p = Some (Uncaught e, q)"
proof -
  show 1: "main_step rt p = (Crash e, q)"
    unfolding main_step_next_frame [OF assms(1)] assms(2) by simp
  show "serve rt p = Some (Uncaught e, q)"
    by (subst serve.simps) (simp add: 1)
qed

lemma serve_eof:
  assumes "sys_stdin p = []"
  shows "serve rt p = Some (Clean, p)"
proof -
  have "readline p = ([], p)"
    using assms by (simp add: readline_def)
  then have "main_step rt p = (Break, p)"
    by (simp add: main_step_def strip_def)
  then show ?thesis
    by (subst serve.simps) simp
qed

lemma caught_turn:
  assumes "next_frame rt p = Some (m, pm)"
      and "handle_message rt m pm = (Return response, q)"
      and "sys_stdout q = sys_stdout p"
      and "obj_at q (sys_stdout p) = Open t"
  shows "fst (main_step rt p) = Served"
    and "serve rt p = serve rt (snd (main_step rt p))"
    and "obj_at (snd (main_step rt p)) (sys_stdout p) = Open (t @ framed response)"
    and "session (snd (main_step rt p)) = session q"
    and "sys_stdout (snd (main_step rt p)) = sys_stdout p"
proof -
  have o: "obj_at q (sys_stdout q) = Open t"
    using assms(3,4) by simp
  note s = served_turn [OF assms(1,2) o]
  show "fst (main_step rt p) = Served"
    by (simp add: s(1))
  show "serve rt p = serve rt (snd (main_step rt p))"
    by (simp add: s)
  show "obj_at (snd (main_step rt p)) (sys_stdout p) = Open (t @ framed response)"
    using obj_at_written [OF o] by (simp add: s(1) assms(3))
  show "session (snd (main_step rt p)) = session q"
    by (simp add: s(1))
  show "sys_stdout (snd (main_step rt p)) = sys_stdout p"
    by (simp add: s(1) assms(3))
qed

lemma escaped_turn:
  assumes "next_frame rt p = Some (m, pm)"
      and "fst (handle_message rt m pm) = Raise e"
  shows "fst (main_step rt p) = Crash e"
    and "serve rt p = Some (Uncaught e, snd (main_step rt p))"
proof -
  obtain q where h: "handle_message rt m pm = (Raise e, q)"
    using assms(2) by (cases "handle_message rt m pm") simp
  note c = crashed_turn [OF assms(1) h]
  show "fst (main_step rt p) = Crash e"
    by (simp add: c(1))
  show "serve rt p = Some (Uncaught e, snd (main_step rt p))"
    by (simp add: c)
qed

lemma success_turn:
  assumes "next_frame rt p = Some (m, pm)"
      and "json_loads rt m = Return (JObj d)"
      and "dict_get d ''method'' JNull = JStr ''tools/execute''"
      and "dict_get d ''params'' (JObj []) = JObj ps"
      and "dict_get ps ''tool'' JNull = JStr ''execute''"
      and "dict_get ps ''arguments'' (JObj []) = JObj as"
      and "fst (execute_python rt (dict_get as ''code'' (JStr [])) pm) = Return r"
      and "objs (snd (execute_python rt (dict_get as ''code'' (JStr [])) pm)) = objs pm @ ys"
      and "sys_stdout (snd (execute_python rt (dict_get as ''code'' (JStr [])) pm)) = sys_stdout pm"
      and "obj_at p (sys_stdout p) = Open t"
  shows "fst (main_step rt p) = Served"
    and "serve rt p = serve rt (snd (main_step rt p))"
    and "obj_at (snd (main_step rt p)) (sys_stdout p) =
           Open (t @ framed (json_dumps (success_response (dict_get d ''id'' JNull)
                                           (result_json r))))"
    and "session (snd (main_step rt p)) =
           session (snd (execute_python rt (dict_get as ''code'' (JStr [])) pm))"
    and "sys_stdout (snd (main_step rt p)) = sys_stdout p"
proof -
  let ?q = "snd (execute_python rt (dict_get as ''code'' (JStr [])) pm)"
  have h: "handle_message rt m pm =
      (Return (json_dumps (success_response (dict_get d ''id'' JNull) (result_json r))), ?q)"
  proof (cases "execute_python rt (dict_get as ''code'' (JStr [])) pm")
    case (Pair x q)
    then show ?thesis
      using assms(7) by (simp add: handle_message_execute [OF assms(2-6)])
  qed
  have s: "sys_stdout ?q = sys_stdout p"
    using assms(9) by (simp add: next_frame_fields(3) [OF assms(1)])
  have "obj_at pm (sys_stdout p) = Open t"
    using assms(10) by (simp add: obj_at_next_frame [OF assms(1)])
  then have o: "obj_at ?q (sys_stdout p) = Open t"
    using assms(8) by (rule obj_at_append)
  note c = caught_turn [OF assms(1) h s o]
  show "fst (main_step rt p) = Served"
    and "serve rt p = serve rt (snd (main_step rt p))"
    and "obj_at (snd (main_step rt p)) (sys_stdout p) =
           Open (t @ framed (json_dumps (success_response (dict_get d ''id'' JNull)
                                           (result_json r))))"
    and "session (snd (main_step rt p)) = session ?q"
    and "sys_stdout (snd (main_step rt p)) = sys_stdout p"
    using c by simp_all
qed

subsection \<open>Reading the runtime \<open>cpy\<close>\<close>

lemma cpy_sel [simp]:
  "json_loads (cpy tx) = cpy_loads tx" "py_eval (cpy tx) = cpy_eval tx"
  "py_exec (cpy tx) = cpy_exec tx" "py_repr (cpy tx) = cpy_repr tx"
  "format_exc (cpy tx) = trace_text tx" "other_str (cpy tx) = str_text tx"
  "py_int (cpy tx) = cpy_int tx" "closed_error (cpy tx) = closed_file tx"
  by (simp_all add: cpy_def)

lemma with_builtins_sel [simp]:
  "objs (with_builtins p) = objs p" "sys_stdout (with_builtins p) = sys_stdout p"
  "sys_stderr (with_builtins p) = sys_stderr p" "calls (with_builtins p) = calls p"
  "sys_orig_stdout (with_builtins p) = sys_orig_stdout p"
  "sys_stdin (with_builtins p) = sys_stdin p"
  by (simp_all add: with_builtins_def)

lemma obj_at_with_builtins [simp]: "obj_at (with_builtins p) r = obj_at p r"
  by (simp add: obj_at_def)

lemma getvalue_with_builtins [simp]: "getvalue ce r (with_builtins p) = getvalue ce r p"
  by (simp add: getvalue_def)

lemma captured_with_builtins [simp]:
  "captured rt out err (with_builtins p) = captured rt out err p"
  unfolding captured_def getvalue_with_builtins ..

lemma with_builtins_lookup:
  "x \<noteq> ''__builtins__'' \<Longrightarrow> map_of (session (with_builtins p)) x = map_of (session p) x"
  by (auto simp add: with_builtins_def map_add_def split: option.splits)

lemma map_of_dict_set: "map_of (dict_set k v d) k = Some v"
  by (induction d) (auto simp add: dict_set_def)

lemma str_int_2: "str_int 2 = ''2''"
  by (simp add: str_int_def str_nat.simps digit_char_def)

lemma str_int_6: "str_int 6 = ''6''"
  by (simp add: str_int_def str_nat.simps digit_char_def)

subsection \<open>Four snippets on \<open>cpy\<close>\<close>

lemma lex_empty: "lex Idle [] = Some []"
  by (simp add: finish_def)

lemma parse_empty: "parse_sum parse_atom [] = None"
  by (simp add: parse_sum_def parse_atom_def parse_simple_def)

lemma cpy_eval_empty:
  "cpy_eval tx (JStr []) p = (Rejected (syntax_error tx []), with_builtins p)"
  by (simp add: cpy_eval_def finish_def parse_empty)

lemma cpy_exec_empty: "cpy_exec tx (JStr []) p = (Ran (Return ()), with_builtins p)"
  by (simp add: cpy_exec_def finish_def)

lemma execute_python_empty:
  "fst (execute_python (cpy tx) (JStr []) p) =
     Return \<lparr>r_success = True, r_output = [], r_error = [], r_result = None\<rparr>
   \<and> calls (snd (execute_python (cpy tx) (JStr []) p)) =
       calls p @ [EvalCall (JStr []), ExecCall (JStr [])]"
  by (simp add: execute_python_def capture_enter_eq try_block_def expression_path_def
      statement_path_def eval_call_def exec_call_def cpy_eval_empty cpy_exec_empty
      as_outcome_def is_syntax_error_def syntax_error_def captured_fresh)

lemma lex_1p1: "lex Idle ''1+1'' = Some [TNum 1, TPlus, TNum 1]"
  by code_simp

lemma parse_1p1:
  "parse_sum parse_atom [TNum 1, TPlus, TNum 1] =
     Some (Simple (SOperand (ONum 1)), [Simple (SOperand (ONum 1))])"
  by code_simp

lemma cpy_eval_1p1: "cpy_eval tx (JStr ''1+1'') p = (Ran (Return (PInt 2)), with_builtins p)"
  unfolding cpy_eval_def json.case lex_1p1 option.case parse_1p1
  by (simp add: eval_sum_def eval_atom_def eval_simple_def eval_operand_def py_add_def)

lemma execute_python_1p1:
  "fst (execute_python (cpy tx) (JStr ''1+1'') p) =
     Return \<lparr>r_success = True, r_output = [], r_error = [], r_result = Some ''2''\<rparr>
   \<and> calls (snd (execute_python (cpy tx) (JStr ''1+1'') p)) = calls p @ [EvalCall (JStr ''1+1'')]"
  by (simp add: execute_python_def capture_enter_eq try_block_def expression_path_def
      eval_call_def cpy_eval_1p1 as_outcome_def captured_fresh cpy_repr_def val_str_def
      str_int_2 del: lex.simps)

lemma lex_x5: "lex Idle ''x = 5'' = Some [TName ''x'', TEq, TNum 5]"
  by code_simp

lemma parse_x5: "parse_sum parse_atom [TName ''x'', TEq, TNum 5] = None"
  by code_simp

lemma parse_5: "parse_sum parse_atom [TNum 5] = Some (Simple (SOperand (ONum 5)), [])"
  by code_simp

lemma is_var_x: "is_var ''x''"
  by code_simp

lemma cpy_eval_x5:
  "cpy_eval tx (JStr ''x = 5'') p = (Rejected (syntax_error tx ''x = 5''), with_builtins p)"
  unfolding cpy_eval_def json.case lex_x5 option.case parse_x5 ..

lemma cpy_exec_x5:
  "cpy_exec tx (JStr ''x = 5'') p =
     (Ran (Return ()),
      (with_builtins p)\<lparr>session := dict_set ''x'' (PInt 5) (session (with_builtins p))\<rparr>)"
  unfolding cpy_exec_def json.case lex_x5 option.case
  by (simp add: exec_assign_def is_var_x parse_5 eval_sum_def eval_atom_def eval_simple_def
      eval_operand_def with_builtins_def)

lemma lex_xp1: "lex Idle ''x + 1'' = Some [TName ''x'', TPlus, TNum 1]"
  by code_simp

lemma parse_xp1:
  "parse_sum parse_atom [TName ''x'', TPlus, TNum 1] =
     Some (Simple (SOperand (OVar ''x'')), [Simple (SOperand (ONum 1))])"
  by code_simp

lemma cpy_eval_xp1:
  "map_of (session p) ''x'' = Some (PInt 5) \<Longrightarrow>
   cpy_eval tx (JStr ''x + 1'') p = (Ran (Return (PInt 6)), with_builtins p)"
  unfolding cpy_eval_def json.case lex_xp1 option.case parse_xp1
  by (simp add: eval_sum_def eval_atom_def eval_simple_def eval_operand_def py_add_def
      with_builtins_lookup)

lemma execute_python_x5:
  "fst (execute_python (cpy tx) (JStr ''x = 5'') p) =
     Return \<lparr>r_success = True, r_output = [], r_error = [], r_result = None\<rparr>
   \<and> map_of (session (snd (execute_python (cpy tx) (JStr ''x = 5'') p))) ''x'' = Some (PInt 5)"
  by (simp add: execute_python_def capture_enter_eq try_block_def expression_path_def
      statement_path_def eval_call_def exec_call_def cpy_eval_x5 cpy_exec_x5
      as_outcome_def is_syntax_error_def syntax_error_def captured_fresh map_of_dict_set
      del: lex.simps)

lemma execute_python_xp1:
  "map_of (session q) ''x'' = Some (PInt 5) \<Longrightarrow>
   fst (execute_python (cpy tx) (JStr ''x + 1'') q) =
     Return \<lparr>r_success = True, r_output = [], r_error = [], r_result = Some ''6''\<rparr>"
  by (simp add: execute_python_def capture_enter_eq try_block_def expression_path_def
      eval_call_def cpy_eval_xp1 as_outcome_def captured_fresh cpy_repr_def val_str_def
      str_int_6 del: lex.simps)

lemma execute_python_x5_state:
  "objs (snd (execute_python (cpy tx) (JStr ''x = 5'') p)) = objs p @ [Open [], Open []]
   \<and> sys_stdout (snd (execute_python (cpy tx) (JStr ''x = 5'') p)) = sys_stdout p"
  by (simp add: execute_python_def capture_enter_eq try_block_def expression_path_def
      statement_path_def eval_call_def exec_call_def cpy_eval_x5 cpy_exec_x5
      as_outcome_def is_syntax_error_def syntax_error_def captured_fresh
      del: lex.simps)

lemma execute_python_xp1_state:
  "map_of (session q) ''x'' = Some (PInt 5) \<Longrightarrow>
   objs (snd (execute_python (cpy tx) (JStr ''x + 1'') q)) = objs q @ [Open [], Open []]
   \<and> sys_stdout (snd (execute_python (cpy tx) (JStr ''x + 1'') q)) = sys_stdout q"
  by (simp add: execute_python_def capture_enter_eq try_block_def expression_path_def
      eval_call_def cpy_eval_xp1 as_outcome_def captured_fresh cpy_repr_def val_str_def
      del: lex.simps)

subsection \<open>The capture of output\<close>

text \<open>
  Claim C9, as amended. For every call of \<open>execute_python\<close>, whatever the runtime and the
  snippet do, and whether the call returns or an exception leaves it, \<open>sys.stdout\<close> and
  \<open>sys.stderr\<close> hold after the call the stream objects they held before it.
\<close>

theorem execute_python_restores_streams:
  "sys_stdout (snd (execute_python rt code p)) = sys_stdout p
   \<and> sys_stderr (snd (execute_python rt code p)) = sys_stderr p"
  by (simp add: execute_python_def split: prod.splits)

theorem execute_python_restores_streams_witness:
  "sys_stdout (snd (execute_python (cpy tx0) (JStr ''raise SystemExit'') p0)) = sys_stdout p0
   \<and> sys_stderr (snd (execute_python (cpy tx0) (JStr ''raise SystemExit'') p0)) = sys_stderr p0"
  using execute_python_restores_streams [of "cpy tx0" "JStr ''raise SystemExit''" p0] .

text \<open>
  Claim C9 as stated fails where it says that nothing but the session and the capture
  buffers changes: the snippet \<open>__import__('sys').__stdout__.write('x')\<close> is evaluated
  with success, and the stream object that was the standard output before the call,
  empty then, holds \<open>x\<close> after it.
\<close>

theorem execute_python_changes_other_state:
  "fst (execute_python (cpy tx0) (JStr ''__import__('sys').__stdout__.write('x')'') p0)
     = Return \<lparr>r_success = True, r_output = [], r_error = [], r_result = Some ''1''\<rparr>
   \<and> obj_at p0 (sys_stdout p0) = Open []
   \<and> obj_at (snd (execute_python (cpy tx0)
                     (JStr ''__import__('sys').__stdout__.write('x')'') p0)) (sys_stdout p0)
       = Open ''x''"
  by code_simp

subsection \<open>Routing\<close>

text \<open>
  Claim C8. Every request (a payload that decodes to a JSON object) whose method is
  \<open>initialize\<close> is answered by a success response whose result has \<open>protocolVersion\<close>
  \<open>2024-11-05\<close>, empty \<open>capabilities\<close> and \<open>serverInfo\<close> with name \<open>python-repl\<close> and
  version \<open>1.0.0\<close>, under the request's own id (null when it has none); and every request
  whose method is none of \<open>initialize\<close>, \<open>tools/list\<close>, \<open>tools/execute\<close> (or is missing)
  is answered by a success response with the empty result. Neither changes the process.
\<close>

theorem handle_message_initialize_and_other_methods:
  assumes "json_loads rt m = Return (JObj d)"
  shows "(dict_get d ''method'' JNull = JStr ''initialize'' \<longrightarrow>
            handle_message rt m p =
              (Return (json_dumps (JObj
                 [(''jsonrpc'', JStr ''2.0''), (''id'', dict_get d ''id'' JNull),
                  (''result'', JObj
                     [(''protocolVersion'', JStr ''2024-11-05''),
                      (''capabilities'', JObj []),
                      (''serverInfo'', JObj [(''name'', JStr ''python-repl''),
                                             (''version'', JStr ''1.0.0'')])])])), p))
       \<and> (dict_get d ''method'' JNull
              \<notin> {JStr ''initialize'', JStr ''tools/list'', JStr ''tools/execute''} \<longrightarrow>
            handle_message rt m p =
              (Return (json_dumps (JObj
                 [(''jsonrpc'', JStr ''2.0''), (''id'', dict_get d ''id'' JNull),
                  (''result'', JObj [])])), p))"
  using assms
  by (simp add: handle_message_def dispatch_def success_response_def initialize_result_def)

theorem handle_message_initialize_and_other_methods_witness:
  \<open>handle_message (cpy tx0) ''{"jsonrpc": "2.0", "id": 7, "method": "initialize"}'' p0 =
     (Return ''{"jsonrpc": "2.0", "id": 7, "result": {"protocolVersion": "2024-11-05", "capabilities": {}, "serverInfo": {"name": "python-repl", "version": "1.0.0"}}}'', p0)
   \<and> handle_message (cpy tx0) ''{"jsonrpc": "2.0", "id": "a", "method": "ping"}'' p0 =
     (Return ''{"jsonrpc": "2.0", "id": "a", "result": {}}'', p0)\<close>
proof -
  have h1: \<open>json_loads (cpy tx0) ''{"jsonrpc": "2.0", "id": 7, "method": "initialize"}'' =
      Return (JObj [(''jsonrpc'', JStr ''2.0''), (''id'', JInt 7), (''method'', JStr ''initialize'')])\<close>
    by code_simp
  have h2: \<open>json_loads (cpy tx0) ''{"jsonrpc": "2.0", "id": "a", "method": "ping"}'' =
      Return (JObj [(''jsonrpc'', JStr ''2.0''), (''id'', JStr ''a''), (''method'', JStr ''ping'')])\<close>
    by code_simp
  have r1: \<open>handle_message (cpy tx0) ''{"jsonrpc": "2.0", "id": 7, "method": "initialize"}'' p0 =
      (Return (json_dumps (JObj
         [(''jsonrpc'', JStr ''2.0''), (''id'', JInt 7),
          (''result'', JObj
             [(''protocolVersion'', JStr ''2024-11-05''),
              (''capabilities'', JObj []),
              (''serverInfo'', JObj [(''name'', JStr ''python-repl''),
                                     (''version'', JStr ''1.0.0'')])])])), p0)\<close>
    using handle_message_initialize_and_other_methods [OF h1, of p0]
    by (simp add: dict_get_def)
  have r2: \<open>handle_message (cpy tx0) ''{"jsonrpc": "2.0", "id": "a", "method": "ping"}'' p0 =
      (Return (json_dumps (JObj
         [(''jsonrpc'', JStr ''2.0''), (''id'', JStr ''a''), (''result'', JObj [])])), p0)\<close>
    using handle_message_initialize_and_other_methods [OF h2, of p0]
    by (simp add: dict_get_def)
  have e1: \<open>json_dumps (JObj
         [(''jsonrpc'', JStr ''2.0''), (''id'', JInt 7),
          (''result'', JObj
             [(''protocolVersion'', JStr ''2024-11-05''),
              (''capabilities'', JObj []),
              (''serverInfo'', JObj [(''name'', JStr ''python-repl''),
                                     (''version'', JStr ''1.0.0'')])])]) =
      ''{"jsonrpc": "2.0", "id": 7, "result": {"protocolVersion": "2024-11-05", "capabilities": {}, "serverInfo": {"name": "python-repl", "version": "1.0.0"}}}''\<close>
    by code_simp
  have e2: \<open>json_dumps (JObj
         [(''jsonrpc'', JStr ''2.0''), (''id'', JStr ''a''), (''result'', JObj [])]) =
      ''{"jsonrpc": "2.0", "id": "a", "result": {}}''\<close>
    by code_simp
  show ?thesis
    unfolding r1 r2 e1 e2 by (rule conjI) (rule refl)+
qed

text \<open>The response to a \<open>tools/execute\<close> request for a tool other than \<open>execute\<close>, from
  any process state.\<close>

lemma handle_message_tool_not_found:
  assumes "json_loads rt m = Return (JObj d)"
      and "dict_get d ''method'' JNull = JStr ''tools/execute''"
      and "dict_get d ''params'' (JObj []) = JObj ps"
      and "dict_get ps ''tool'' JNull \<noteq> JStr ''execute''"
  shows "handle_message rt m p =
           (Return (json_dumps (JObj
              [(''jsonrpc'', JStr ''2.0''), (''id'', dict_get d ''id'' JNull),
               (''error'', JObj
                  [(''code'', JInt (- 32601)),
                   (''message'', JStr (''Tool not found: ''
                                       @ py_str rt (dict_get ps ''tool'' JNull)))])])), p)
         \<and> py_str rt (JStr s) = s"
  using assms
  by (simp add: handle_message_def dispatch_def error_response_def py_str_def)

text \<open>
  Claim C7. Take a turn of the loop that reads a frame holding a \<open>tools/execute\<close> request
  whose params are a mapping (or missing) and whose tool is anything but \<open>execute\<close> (a
  missing tool reads as \<open>None\<close>), with standard output open. \<open>handle_message\<close> returns
  an error response with code -32601 and the message \<open>Tool not found: \<close> followed by the
  tool as \<open>str\<close> gives it (the string itself, \<open>None\<close>, \<open>True\<close> or \<open>False\<close>, the
  decimal digits of an integer, and for a float, list or dict what the runtime's \<open>str\<close>
  gives); the response has no result and the process is left as it was. The turn writes that response, framed, to standard output, and the server
  continues: the loop goes on with its next turn from the process the write leaves.
\<close>

theorem unknown_tool_turn:
  assumes "next_frame rt p = Some (m, pm)"
      and "json_loads rt m = Return (JObj d)"
      and "dict_get d ''method'' JNull = JStr ''tools/execute''"
      and "dict_get d ''params'' (JObj []) = JObj ps"
      and "dict_get ps ''tool'' JNull \<noteq> JStr ''execute''"
      and "obj_at p (sys_stdout p) = Open t"
  shows "handle_message rt m pm = (Return (json_dumps (JObj
              [(''jsonrpc'', JStr ''2.0''), (''id'', dict_get d ''id'' JNull),
               (''error'', JObj
                  [(''code'', JInt (- 32601)),
                   (''message'', JStr (''Tool not found: ''
                                       @ py_str rt (dict_get ps ''tool'' JNull)))])])), pm)
     \<and> main_step rt p =
         (Served, pm\<lparr>objs := (objs pm)[sys_stdout pm := Open (t @ framed (json_dumps (JObj
              [(''jsonrpc'', JStr ''2.0''), (''id'', dict_get d ''id'' JNull),
               (''error'', JObj
                  [(''code'', JInt (- 32601)),
                   (''message'', JStr (''Tool not found: ''
                                       @ py_str rt (dict_get ps ''tool'' JNull)))])])))]\<rparr>)
     \<and> serve rt p =
         serve rt (pm\<lparr>objs := (objs pm)[sys_stdout pm := Open (t @ framed (json_dumps (JObj
              [(''jsonrpc'', JStr ''2.0''), (''id'', dict_get d ''id'' JNull),
               (''error'', JObj
                  [(''code'', JInt (- 32601)),
                   (''message'', JStr (''Tool not found: ''
                                       @ py_str rt (dict_get ps ''tool'' JNull)))])])))]\<rparr>)
     \<and> py_str rt (JStr s) = s \<and> py_str rt JNull = ''None''
     \<and> py_str rt (JBool b) = (if b then ''True'' else ''False'')
     \<and> py_str rt (JInt i) = str_int i
     \<and> py_str rt (JFloat r) = other_str rt (JFloat r)
     \<and> py_str rt (JArr xs) = other_str rt (JArr xs)
     \<and> py_str rt (JObj kvs) = other_str rt (JObj kvs)"
proof -
  have h: "handle_message rt m pm = (Return (json_dumps (JObj
              [(''jsonrpc'', JStr ''2.0''), (''id'', dict_get d ''id'' JNull),
               (''error'', JObj
                  [(''code'', JInt (- 32601)),
                   (''message'', JStr (''Tool not found: ''
                                       @ py_str rt (dict_get ps ''tool'' JNull)))])])), pm)"
    using assms(2-5)
    by (simp add: handle_message_def dispatch_def error_response_def)
  have o: "obj_at pm (sys_stdout pm) = Open t"
    using assms(6) by (simp add: obj_at_next_frame [OF assms(1)] next_frame_fields [OF assms(1)])
  note s = served_turn [OF assms(1) h o]
  show ?thesis
    using h s by (simp add: py_str_def)
qed

theorem unknown_tool_turn_witness:
  \<open>map_option fst (main (cpy tx0) (p0\<lparr>sys_stdin :=
         ''Content-Length: 81'' @ [cr, nl, cr, nl] @
         ''{"jsonrpc": "2.0", "id": 7, "method": "tools/execute", "params": {"tool": "foo"}}'' @
         ''Content-Length: 51'' @ [cr, nl, cr, nl] @
         ''{"jsonrpc": "2.0", "id": 2, "method": "initialize"}''\<rparr>)) = Some Clean
   \<and> map_option (\<lambda>x. obj_at (snd x) 0) (main (cpy tx0) (p0\<lparr>sys_stdin :=
         ''Content-Length: 81'' @ [cr, nl, cr, nl] @
         ''{"jsonrpc": "2.0", "id": 7, "method": "tools/execute", "params": {"tool": "foo"}}'' @
         ''Content-Length: 51'' @ [cr, nl, cr, nl] @
         ''{"jsonrpc": "2.0", "id": 2, "method": "initialize"}''\<rparr>)) =
     Some (Open (framed ''{"jsonrpc": "2.0", "id": 7, "error": {"code": -32601, "message": "Tool not found: foo"}}'' @
                 framed ''{"jsonrpc": "2.0", "id": 2, "result": {"protocolVersion": "2024-11-05", "capabilities": {}, "serverInfo": {"name": "python-repl", "version": "1.0.0"}}}''))\<close>
proof -
  let ?P = \<open>p0\<lparr>sys_stdin :=
         ''Content-Length: 81'' @ [cr, nl, cr, nl] @
         ''{"jsonrpc": "2.0", "id": 7, "method": "tools/execute", "params": {"tool": "foo"}}'' @
         ''Content-Length: 51'' @ [cr, nl, cr, nl] @
         ''{"jsonrpc": "2.0", "id": 2, "method": "initialize"}''\<rparr>\<close>
  let ?PM = \<open>p0\<lparr>sys_stdin :=
         ''Content-Length: 51'' @ [cr, nl, cr, nl] @
         ''{"jsonrpc": "2.0", "id": 2, "method": "initialize"}''\<rparr>\<close>
  let ?d = \<open>[(''jsonrpc'', JStr ''2.0''), (''id'', JInt 7),
             (''method'', JStr ''tools/execute''),
             (''params'', JObj [(''tool'', JStr ''foo'')])]\<close>
  let ?S1 = \<open>p0\<lparr>sys_stdin :=
         ''Content-Length: 51'' @ [cr, nl, cr, nl] @
         ''{"jsonrpc": "2.0", "id": 2, "method": "initialize"}'',
       objs := [Open (framed ''{"jsonrpc": "2.0", "id": 7, "error": {"code": -32601, "message": "Tool not found: foo"}}''), Open []]\<rparr>\<close>
  let ?S2 = \<open>p0\<lparr>sys_stdin := [],
       objs := [Open (framed ''{"jsonrpc": "2.0", "id": 7, "error": {"code": -32601, "message": "Tool not found: foo"}}'' @
                      framed ''{"jsonrpc": "2.0", "id": 2, "result": {"protocolVersion": "2024-11-05", "capabilities": {}, "serverInfo": {"name": "python-repl", "version": "1.0.0"}}}''), Open []]\<rparr>\<close>
  have m: "?P\<lparr>session := []\<rparr> = ?P"
    by (simp add: p0_def)
  have nf: \<open>next_frame (cpy tx0) ?P =
      Some (''{"jsonrpc": "2.0", "id": 7, "method": "tools/execute", "params": {"tool": "foo"}}'', ?PM)\<close>
    by code_simp
  have h: \<open>json_loads (cpy tx0)
      ''{"jsonrpc": "2.0", "id": 7, "method": "tools/execute", "params": {"tool": "foo"}}'' = Return (JObj ?d)\<close>
    by code_simp
  have o: "obj_at ?P (sys_stdout ?P) = Open []"
    by code_simp
  have e: \<open>json_dumps (JObj
         [(''jsonrpc'', JStr ''2.0''), (''id'', JInt 7),
          (''error'', JObj [(''code'', JInt (- 32601)),
                            (''message'', JStr ''Tool not found: foo'')])]) =
      ''{"jsonrpc": "2.0", "id": 7, "error": {"code": -32601, "message": "Tool not found: foo"}}''\<close>
    by (simp add: dumps_str_def escape_char_def str_int_def str_nat.simps digit_char_def)
  let ?Q0 = \<open>?PM\<lparr>objs := (objs ?PM)[sys_stdout ?PM := Open ([] @ framed
      (json_dumps (JObj
         [(''jsonrpc'', JStr ''2.0''), (''id'', JInt 7),
          (''error'', JObj [(''code'', JInt (- 32601)),
                            (''message'', JStr ''Tool not found: foo'')])])))]\<rparr>\<close>
  have t0: "serve (cpy tx0) ?P = serve (cpy tx0) ?Q0"
    using unknown_tool_turn
      [OF nf h, where ps = "[(''tool'', JStr ''foo'')]" and t = "[]" and s = "''foo''"] o
    by (simp add: dict_get_def del: json_dumps.simps)
  have q: "?Q0 = ?S1"
    unfolding e by (simp add: p0_def)
  have nf2: \<open>next_frame (cpy tx0) ?S1 =
      Some (''{"jsonrpc": "2.0", "id": 2, "method": "initialize"}'', ?S1\<lparr>sys_stdin := []\<rparr>)\<close>
    by code_simp
  have h2: \<open>handle_message (cpy tx0)
      ''{"jsonrpc": "2.0", "id": 2, "method": "initialize"}'' (?S1\<lparr>sys_stdin := []\<rparr>) =
      (Return ''{"jsonrpc": "2.0", "id": 2, "result": {"protocolVersion": "2024-11-05", "capabilities": {}, "serverInfo": {"name": "python-repl", "version": "1.0.0"}}}'', ?S1\<lparr>sys_stdin := []\<rparr>)\<close>
    by code_simp
  have o2: \<open>obj_at (?S1\<lparr>sys_stdin := []\<rparr>) (sys_stdout (?S1\<lparr>sys_stdin := []\<rparr>)) =
      Open (framed ''{"jsonrpc": "2.0", "id": 7, "error": {"code": -32601, "message": "Tool not found: foo"}}'')\<close>
    by (simp add: obj_at_def p0_def)
  have s2: \<open>(?S1\<lparr>sys_stdin := []\<rparr>)\<lparr>objs := (objs (?S1\<lparr>sys_stdin := []\<rparr>))
      [sys_stdout (?S1\<lparr>sys_stdin := []\<rparr>) := Open (framed ''{"jsonrpc": "2.0", "id": 7, "error": {"code": -32601, "message": "Tool not found: foo"}}'' @
         framed ''{"jsonrpc": "2.0", "id": 2, "result": {"protocolVersion": "2024-11-05", "capabilities": {}, "serverInfo": {"name": "python-repl", "version": "1.0.0"}}}'')]\<rparr> = ?S2\<close>
    by (simp add: p0_def)
  have t2: "serve (cpy tx0) ?S1 = serve (cpy tx0) ?S2"
    using served_turn(2) [OF nf2 h2 o2] unfolding s2 .
  have t3: "serve (cpy tx0) ?S2 = Some (Clean, ?S2)"
    by (rule serve_eof) simp
  have r: "main (cpy tx0) ?P = Some (Clean, ?S2)"
    unfolding main_def m t0 q t2 t3 ..
  show ?thesis
    unfolding r by (simp add: obj_at_def)
qed

subsection \<open>Executing code through a request\<close>

text \<open>
  Claim C4, as the code has it. A \<open>tools/execute\<close> request with tool \<open>execute\<close> and code
  \<open>1+1\<close> is answered by a success response, under the request's id, whose result is the
  dictionary with \<open>success\<close> true, \<open>output\<close> the empty text, \<open>error\<close> the empty text and
  \<open>result\<close> the text \<open>2\<close>: the captured standard output is under the key \<open>output\<close> and
  the captured standard error under the key \<open>error\<close>. This holds from every process
  state.
\<close>

theorem handle_message_one_plus_one:
  assumes "json_loads (cpy tx) m = Return (JObj d)"
      and "dict_get d ''method'' JNull = JStr ''tools/execute''"
      and "dict_get d ''params'' (JObj []) = JObj ps"
      and "dict_get ps ''tool'' JNull = JStr ''execute''"
      and "dict_get ps ''arguments'' (JObj []) = JObj as"
      and "map_of as ''code'' = Some (JStr ''1+1'')"
  shows "fst (handle_message (cpy tx) m p) =
           Return (json_dumps (JObj
              [(''jsonrpc'', JStr ''2.0''), (''id'', dict_get d ''id'' JNull),
               (''result'', JObj
                  [(''success'', JBool True), (''output'', JStr []), (''error'', JStr []),
                   (''result'', JStr ''2'')])]))"
proof -
  have code: "dict_get as ''code'' (JStr []) = JStr ''1+1''"
    using assms(6) by (simp add: dict_get_def)
  obtain r q where rq: "execute_python (cpy tx) (JStr ''1+1'') p = (r, q)"
    by (cases "execute_python (cpy tx) (JStr ''1+1'') p")
  have r: "r = Return \<lparr>r_success = True, r_output = [], r_error = [], r_result = Some ''2''\<rparr>"
    using execute_python_1p1 [of tx p] rq by simp
  show ?thesis
    unfolding handle_message_execute [OF assms(1-5)] code rq r
    by (simp add: success_response_def result_json_def)
qed

theorem handle_message_one_plus_one_witness:
  \<open>fst (handle_message (cpy tx0)
      ''{"jsonrpc": "2.0", "id": 1, "method": "tools/execute", "params": {"tool": "execute", "arguments": {"code": "1+1"}}}'' p0) =
     Return ''{"jsonrpc": "2.0", "id": 1, "result": {"success": true, "output": "", "error": "", "result": "2"}}''\<close>
proof -
  have h: \<open>json_loads (cpy tx0)
      ''{"jsonrpc": "2.0", "id": 1, "method": "tools/execute", "params": {"tool": "execute", "arguments": {"code": "1+1"}}}'' =
      Return (JObj [(''jsonrpc'', JStr ''2.0''), (''id'', JInt 1),
                    (''method'', JStr ''tools/execute''),
                    (''params'', JObj [(''tool'', JStr ''execute''),
                                       (''arguments'', JObj [(''code'', JStr ''1+1'')])])])\<close>
    by code_simp
  have e: \<open>json_dumps (JObj
         [(''jsonrpc'', JStr ''2.0''), (''id'', JInt 1),
          (''result'', JObj
             [(''success'', JBool True), (''output'', JStr []), (''error'', JStr []),
              (''result'', JStr ''2'')])]) =
      ''{"jsonrpc": "2.0", "id": 1, "result": {"success": true, "output": "", "error": "", "result": "2"}}''\<close>
    by (simp add: dumps_str_def escape_char_def str_int_def str_nat.simps digit_char_def)
  have r: \<open>fst (handle_message (cpy tx0)
      ''{"jsonrpc": "2.0", "id": 1, "method": "tools/execute", "params": {"tool": "execute", "arguments": {"code": "1+1"}}}'' p0) =
      Return (json_dumps (JObj
         [(''jsonrpc'', JStr ''2.0''), (''id'', JInt 1),
          (''result'', JObj
             [(''success'', JBool True), (''output'', JStr []), (''error'', JStr []),
              (''result'', JStr ''2'')])]))\<close>
    using handle_message_one_plus_one
      [OF h, where ps = "[(''tool'', JStr ''execute''),
                          (''arguments'', JObj [(''code'', JStr ''1+1'')])]"
         and as = "[(''code'', JStr ''1+1'')]" and p = p0]
    by (simp add: dict_get_def del: json_dumps.simps)
  show ?thesis
    using r unfolding e by simp
qed

text \<open>
  Claim C4 as stated names the fields \<open>success\<close>, \<open>stdout\<close>, \<open>stderr\<close> and \<open>result\<close>. The
  dictionary that \<open>execute_python\<close> returns for \<open>1+1\<close> has the keys \<open>success\<close>,
  \<open>output\<close>, \<open>error\<close> and \<open>result\<close>, in this order, and no others: there is no
  \<open>stdout\<close> and no \<open>stderr\<close> in it.
\<close>

theorem execute_python_result_keys:
  "(case fst (execute_python (cpy tx0) (JStr ''1+1'') p0) of
      Return r \<Rightarrow> dict_keys (result_json r)
    | Raise e \<Rightarrow> []) = [''success'', ''output'', ''error'', ''result'']"
  by (simp add: execute_python_1p1 result_json_def dict_keys_def)

text \<open>
  Claim C10. A \<open>tools/execute\<close> request with tool \<open>execute\<close> whose arguments (a mapping,
  or missing altogether) have no \<open>code\<close> entry: \<open>execute_python\<close> is called on the empty
  text, which \<open>eval\<close> rejects and \<open>exec\<close> accepts, so the log of the call is one \<open>eval\<close>
  and one \<open>exec\<close> of the empty text; the response is a success response whose result
  has \<open>success\<close> true, \<open>result\<close> \<open>None\<close>, and empty \<open>output\<close> and \<open>error\<close>.
\<close>

theorem handle_message_missing_code:
  assumes "json_loads (cpy tx) m = Return (JObj d)"
      and "dict_get d ''method'' JNull = JStr ''tools/execute''"
      and "dict_get d ''params'' (JObj []) = JObj ps"
      and "dict_get ps ''tool'' JNull = JStr ''execute''"
      and "dict_get ps ''arguments'' (JObj []) = JObj as"
      and "map_of as ''code'' = None"
  shows "fst (handle_message (cpy tx) m p) =
           Return (json_dumps (JObj
              [(''jsonrpc'', JStr ''2.0''), (''id'', dict_get d ''id'' JNull),
               (''result'', JObj
                  [(''success'', JBool True), (''output'', JStr []), (''error'', JStr []),
                   (''result'', JNull)])]))
         \<and> calls (snd (handle_message (cpy tx) m p)) =
             calls p @ [EvalCall (JStr []), ExecCall (JStr [])]"
proof -
  have code: "dict_get as ''code'' (JStr []) = JStr []"
    using assms(6) by (simp add: dict_get_def)
  obtain r q where rq: "execute_python (cpy tx) (JStr []) p = (r, q)"
    by (cases "execute_python (cpy tx) (JStr []) p")
  have r: "r = Return \<lparr>r_success = True, r_output = [], r_error = [], r_result = None\<rparr>"
    and q: "calls q = calls p @ [EvalCall (JStr []), ExecCall (JStr [])]"
    using execute_python_empty [of tx p] rq by simp_all
  show ?thesis
    unfolding handle_message_execute [OF assms(1-5)] code rq r
    by (simp add: q success_response_def result_json_def)
qed

theorem handle_message_missing_code_witness:
  \<open>fst (handle_message (cpy tx0)
      ''{"jsonrpc": "2.0", "id": 1, "method": "tools/execute", "params": {"tool": "execute", "arguments": {}}}'' p0) =
     Return ''{"jsonrpc": "2.0", "id": 1, "result": {"success": true, "output": "", "error": "", "result": null}}''
   \<and> calls (snd (handle_message (cpy tx0)
      ''{"jsonrpc": "2.0", "id": 1, "method": "tools/execute", "params": {"tool": "execute", "arguments": {}}}'' p0)) =
     [EvalCall (JStr []), ExecCall (JStr [])]\<close>
proof -
  have h: \<open>json_loads (cpy tx0)
      ''{"jsonrpc": "2.0", "id": 1, "method": "tools/execute", "params": {"tool": "execute", "arguments": {}}}'' =
      Return (JObj [(''jsonrpc'', JStr ''2.0''), (''id'', JInt 1),
                    (''method'', JStr ''tools/execute''),
                    (''params'', JObj [(''tool'', JStr ''execute''), (''arguments'', JObj [])])])\<close>
    by code_simp
  have e: \<open>json_dumps (JObj
         [(''jsonrpc'', JStr ''2.0''), (''id'', JInt 1),
          (''result'', JObj
             [(''success'', JBool True), (''output'', JStr []), (''error'', JStr []),
              (''result'', JNull)])]) =
      ''{"jsonrpc": "2.0", "id": 1, "result": {"success": true, "output": "", "error": "", "result": null}}''\<close>
    by (simp add: dumps_str_def escape_char_def str_int_def str_nat.simps digit_char_def)
  have c: "calls p0 = []"
    by (simp add: p0_def)
  have r: \<open>fst (handle_message (cpy tx0)
      ''{"jsonrpc": "2.0", "id": 1, "method": "tools/execute", "params": {"tool": "execute", "arguments": {}}}'' p0) =
      Return (json_dumps (JObj
         [(''jsonrpc'', JStr ''2.0''), (''id'', JInt 1),
          (''result'', JObj
             [(''success'', JBool True), (''output'', JStr []), (''error'', JStr []),
              (''result'', JNull)])]))
    \<and> calls (snd (handle_message (cpy tx0)
      ''{"jsonrpc": "2.0", "id": 1, "method": "tools/execute", "params": {"tool": "execute", "arguments": {}}}'' p0)) =
      calls p0 @ [EvalCall (JStr []), ExecCall (JStr [])]\<close>
    using handle_message_missing_code
      [OF h, where ps = "[(''tool'', JStr ''execute''), (''arguments'', JObj [])]"
         and as = "[]" and p = p0]
    by (simp add: dict_get_def del: json_dumps.simps)
  show ?thesis
    using r unfolding e c by simp
qed

subsection \<open>The session\<close>

text \<open>Two calls of \<open>execute_python\<close>, the second on the process the first leaves.\<close>

lemma session_round_trip:
  "fst (execute_python (cpy tx) (JStr ''x = 5'') p) =
     Return \<lparr>r_success = True, r_output = [], r_error = [], r_result = None\<rparr>
   \<and> fst (execute_python (cpy tx) (JStr ''x + 1'')
            (snd (execute_python (cpy tx) (JStr ''x = 5'') p))) =
     Return \<lparr>r_success = True, r_output = [], r_error = [], r_result = Some ''6''\<rparr>"
  using execute_python_x5 [of tx p] execute_python_xp1 by simp

text \<open>
  Claim C6. Take two turns of the loop, one after the other, in one run of the server.
  The first reads a frame holding a \<open>tools/execute\<close> request with tool \<open>execute\<close> and
  code \<open>x = 5\<close>; the second, from the process the first leaves, reads one with code
  \<open>x + 1\<close>. Standard output is open. Both turns are served: the first writes a success
  response with no result, the second a success response whose result has \<open>success\<close>
  true and \<open>result\<close> \<open>6\<close>, the \<open>repr\<close> of the integer 6, and the loop goes on. The
  request handler hands the session of the process to \<open>execute_python\<close> in both turns,
  so the assignment made in the first is what the second reads.
\<close>

theorem session_persists_across_turns:
  assumes "next_frame (cpy tx) p = Some (m1, pm1)"
      and "json_loads (cpy tx) m1 = Return (JObj d1)"
      and "dict_get d1 ''method'' JNull = JStr ''tools/execute''"
      and "dict_get d1 ''params'' (JObj []) = JObj ps1"
      and "dict_get ps1 ''tool'' JNull = JStr ''execute''"
      and "dict_get ps1 ''arguments'' (JObj []) = JObj as1"
      and "map_of as1 ''code'' = Some (JStr ''x = 5'')"
      and "obj_at p (sys_stdout p) = Open t"
      and "next_frame (cpy tx) (snd (main_step (cpy tx) p)) = Some (m2, pm2)"
      and "json_loads (cpy tx) m2 = Return (JObj d2)"
      and "dict_get d2 ''method'' JNull = JStr ''tools/execute''"
      and "dict_get d2 ''params'' (JObj []) = JObj ps2"
      and "dict_get ps2 ''tool'' JNull = JStr ''execute''"
      and "dict_get ps2 ''arguments'' (JObj []) = JObj as2"
      and "map_of as2 ''code'' = Some (JStr ''x + 1'')"
  shows "fst (main_step (cpy tx) p) = Served
     \<and> obj_at (snd (main_step (cpy tx) p)) (sys_stdout p) =
         Open (t @ framed (json_dumps (JObj
              [(''jsonrpc'', JStr ''2.0''), (''id'', dict_get d1 ''id'' JNull),
               (''result'', JObj
                  [(''success'', JBool True), (''output'', JStr []), (''error'', JStr []),
                   (''result'', JNull)])])))
     \<and> fst (main_step (cpy tx) (snd (main_step (cpy tx) p))) = Served
     \<and> obj_at (snd (main_step (cpy tx) (snd (main_step (cpy tx) p)))) (sys_stdout p) =
         Open (t @ framed (json_dumps (JObj
              [(''jsonrpc'', JStr ''2.0''), (''id'', dict_get d1 ''id'' JNull),
               (''result'', JObj
                  [(''success'', JBool True), (''output'', JStr []), (''error'', JStr []),
                   (''result'', JNull)])]))
                @ framed (json_dumps (JObj
              [(''jsonrpc'', JStr ''2.0''), (''id'', dict_get d2 ''id'' JNull),
               (''result'', JObj
                  [(''success'', JBool True), (''output'', JStr []), (''error'', JStr []),
                   (''result'', JStr ''6'')])])))
     \<and> serve (cpy tx) p =
         serve (cpy tx) (snd (main_step (cpy tx) (snd (main_step (cpy tx) p))))"
proof -
  let ?p1 = "snd (main_step (cpy tx) p)"
  have c1: "dict_get as1 ''code'' (JStr []) = JStr ''x = 5''"
    using assms(7) by (simp add: dict_get_def)
  have c2: "dict_get as2 ''code'' (JStr []) = JStr ''x + 1''"
    using assms(15) by (simp add: dict_get_def)
  note x5 = execute_python_x5 [of tx pm1] execute_python_x5_state [of tx pm1]
  note a = success_turn [OF assms(1-6), unfolded c1, OF conjunct1 [OF x5(1)]
      conjunct1 [OF x5(2)] conjunct2 [OF x5(2)] assms(8)]
  have x: "map_of (session pm2) ''x'' = Some (PInt 5)"
    using x5(1) by (simp add: next_frame_fields(1) [OF assms(9)] a(4))
  have o: "obj_at ?p1 (sys_stdout ?p1) =
      Open (t @ framed (json_dumps (JObj
              [(''jsonrpc'', JStr ''2.0''), (''id'', dict_get d1 ''id'' JNull),
               (''result'', JObj
                  [(''success'', JBool True), (''output'', JStr []), (''error'', JStr []),
                   (''result'', JNull)])])))"
    using a(3) by (simp add: a(5) success_response_def result_json_def)
  note xp1 = execute_python_xp1 [OF x, of tx] execute_python_xp1_state [OF x, of tx]
  note b = success_turn [OF assms(9-14), unfolded c2, OF xp1(1)
      conjunct1 [OF xp1(2)] conjunct2 [OF xp1(2)] o]
  show ?thesis
    using a(1,2,3) b(1,2,3)
    by (simp add: a(5) success_response_def result_json_def del: json_dumps.simps)
qed

theorem session_persists_across_turns_witness:
  \<open>map_option fst (main (cpy tx0) (p0\<lparr>sys_stdin :=
         ''Content-Length: 117'' @ [cr, nl, cr, nl] @
         ''{"jsonrpc": "2.0", "id": 1, "method": "tools/execute", "params": {"tool": "execute", "arguments": {"code": "x = 5"}}}'' @
         ''Content-Length: 117'' @ [cr, nl, cr, nl] @
         ''{"jsonrpc": "2.0", "id": 2, "method": "tools/execute", "params": {"tool": "execute", "arguments": {"code": "x + 1"}}}''\<rparr>)) = Some Clean
   \<and> map_option (\<lambda>x. obj_at (snd x) 0) (main (cpy tx0) (p0\<lparr>sys_stdin :=
         ''Content-Length: 117'' @ [cr, nl, cr, nl] @
         ''{"jsonrpc": "2.0", "id": 1, "method": "tools/execute", "params": {"tool": "execute", "arguments": {"code": "x = 5"}}}'' @
         ''Content-Length: 117'' @ [cr, nl, cr, nl] @
         ''{"jsonrpc": "2.0", "id": 2, "method": "tools/execute", "params": {"tool": "execute", "arguments": {"code": "x + 1"}}}''\<rparr>)) =
     Some (Open (framed ''{"jsonrpc": "2.0", "id": 1, "result": {"success": true, "output": "", "error": "", "result": null}}'' @
                 framed ''{"jsonrpc": "2.0", "id": 2, "result": {"success": true, "output": "", "error": "", "result": "6"}}''))\<close>
proof -
  let ?P = \<open>p0\<lparr>sys_stdin :=
         ''Content-Length: 117'' @ [cr, nl, cr, nl] @
         ''{"jsonrpc": "2.0", "id": 1, "method": "tools/execute", "params": {"tool": "execute", "arguments": {"code": "x = 5"}}}'' @
         ''Content-Length: 117'' @ [cr, nl, cr, nl] @
         ''{"jsonrpc": "2.0", "id": 2, "method": "tools/execute", "params": {"tool": "execute", "arguments": {"code": "x + 1"}}}''\<rparr>\<close>
  let ?PM = \<open>p0\<lparr>sys_stdin :=
         ''Content-Length: 117'' @ [cr, nl, cr, nl] @
         ''{"jsonrpc": "2.0", "id": 2, "method": "tools/execute", "params": {"tool": "execute", "arguments": {"code": "x + 1"}}}''\<rparr>\<close>
  let ?S1 = \<open>p0\<lparr>session := [(''__builtins__'', PObj 0), (''x'', PInt 5)],
       objs := [Open (framed ''{"jsonrpc": "2.0", "id": 1, "result": {"success": true, "output": "", "error": "", "result": null}}''), Open [], Open [], Open []],
       sys_stdin :=
         ''Content-Length: 117'' @ [cr, nl, cr, nl] @
         ''{"jsonrpc": "2.0", "id": 2, "method": "tools/execute", "params": {"tool": "execute", "arguments": {"code": "x + 1"}}}'',
       calls := [EvalCall (JStr ''x = 5''), ExecCall (JStr ''x = 5'')]\<rparr>\<close>
  let ?S2 = \<open>p0\<lparr>session := [(''__builtins__'', PObj 0), (''x'', PInt 5)],
       objs := [Open (framed ''{"jsonrpc": "2.0", "id": 1, "result": {"success": true, "output": "", "error": "", "result": null}}'' @
                      framed ''{"jsonrpc": "2.0", "id": 2, "result": {"success": true, "output": "", "error": "", "result": "6"}}''), Open [], Open [], Open [], Open [], Open []],
       sys_stdin := [],
       calls := [EvalCall (JStr ''x = 5''), ExecCall (JStr ''x = 5''),
                 EvalCall (JStr ''x + 1'')]\<rparr>\<close>
  have m: "?P\<lparr>session := []\<rparr> = ?P"
    by (simp add: p0_def)
  have nf1: \<open>next_frame (cpy tx0) ?P =
      Some (''{"jsonrpc": "2.0", "id": 1, "method": "tools/execute", "params": {"tool": "execute", "arguments": {"code": "x = 5"}}}'', ?PM)\<close>
    by code_simp
  have h1: \<open>json_loads (cpy tx0)
      ''{"jsonrpc": "2.0", "id": 1, "method": "tools/execute", "params": {"tool": "execute", "arguments": {"code": "x = 5"}}}'' =
      Return (JObj [(''jsonrpc'', JStr ''2.0''), (''id'', JInt 1),
             (''method'', JStr ''tools/execute''),
             (''params'', JObj [(''tool'', JStr ''execute''),
                                (''arguments'', JObj [(''code'', JStr ''x = 5'')])])])\<close>
    by code_simp
  have o1: "obj_at ?P (sys_stdout ?P) = Open []"
    by code_simp
  have sn1: "snd (main_step (cpy tx0) ?P) = ?S1"
    by code_simp
  have nf2: \<open>next_frame (cpy tx0) (snd (main_step (cpy tx0) ?P)) =
      Some (''{"jsonrpc": "2.0", "id": 2, "method": "tools/execute", "params": {"tool": "execute", "arguments": {"code": "x + 1"}}}'', ?S1\<lparr>sys_stdin := []\<rparr>)\<close>
    unfolding sn1 by code_simp
  have h2: \<open>json_loads (cpy tx0)
      ''{"jsonrpc": "2.0", "id": 2, "method": "tools/execute", "params": {"tool": "execute", "arguments": {"code": "x + 1"}}}'' =
      Return (JObj [(''jsonrpc'', JStr ''2.0''), (''id'', JInt 2),
             (''method'', JStr ''tools/execute''),
             (''params'', JObj [(''tool'', JStr ''execute''),
                                (''arguments'', JObj [(''code'', JStr ''x + 1'')])])])\<close>
    by code_simp
  have sn2: "snd (main_step (cpy tx0) ?S1) = ?S2"
    by code_simp
  have t: "serve (cpy tx0) ?P =
      serve (cpy tx0) (snd (main_step (cpy tx0) (snd (main_step (cpy tx0) ?P))))"
    using session_persists_across_turns
      [OF nf1 h1 _ _ _ _ _ o1 nf2 h2,
       where ?ps1.0 = "[(''tool'', JStr ''execute''),
                     (''arguments'', JObj [(''code'', JStr ''x = 5'')])]"
         and ?as1.0 = "[(''code'', JStr ''x = 5'')]"
         and ?ps2.0 = "[(''tool'', JStr ''execute''),
                     (''arguments'', JObj [(''code'', JStr ''x + 1'')])]"
         and ?as2.0 = "[(''code'', JStr ''x + 1'')]"]
    by (simp add: dict_get_def)
  have t3: "serve (cpy tx0) ?S2 = Some (Clean, ?S2)"
    by (rule serve_eof) simp
  have r: "main (cpy tx0) ?P = Some (Clean, ?S2)"
    unfolding main_def m t sn1 sn2 t3 ..
  show ?thesis
    unfolding r by (simp add: obj_at_def)
qed

subsection \<open>Exceptions raised by the code submitted\<close>

text \<open>What \<open>handle_message\<close> returns when the code of a \<open>tools/execute\<close> request
  raises, from any process state.\<close>

lemma handle_message_reports_exceptions:
  assumes "json_loads rt m = Return (JObj d)"
      and "dict_get d ''method'' JNull = JStr ''tools/execute''"
      and "dict_get d ''params'' (JObj []) = JObj ps"
      and "dict_get ps ''tool'' JNull = JStr ''execute''"
      and "dict_get ps ''arguments'' (JObj []) = JObj as"
      and "dict_get as ''code'' (JStr []) = code"
      and "capture_enter p = (out, err, p3)"
      and "py_eval rt code p3 = (r1, q1)"
      and "py_exec rt code (q1\<lparr>calls := calls p3 @ [EvalCall code]\<rparr>) = (r2, q2)"
  shows "(as_outcome r1 = Raise e \<and> is_exception e \<and> \<not> is_syntax_error e
            \<and> captured rt out err q1 = Return (a, b) \<longrightarrow>
          fst (handle_message rt m p) =
            Return (json_dumps (success_response (dict_get d ''id'' JNull)
              (result_json \<lparr>r_success = False, r_output = a,
                            r_error = b @ [nl] @ format_exc rt e, r_result = None\<rparr>))))
       \<and> (r1 = Rejected e0 \<and> is_syntax_error e0 \<and> as_outcome r2 = Raise e \<and> is_exception e
            \<and> captured rt out err q2 = Return (a, b) \<longrightarrow>
          fst (handle_message rt m p) =
            Return (json_dumps (success_response (dict_get d ''id'' JNull)
              (result_json \<lparr>r_success = False, r_output = a,
                            r_error = b @ [nl] @ format_exc rt e, r_result = None\<rparr>))))
       \<and> (\<not> is_exception e
            \<and> (as_outcome r1 = Raise e
                 \<or> r1 = Rejected e0 \<and> is_syntax_error e0 \<and> as_outcome r2 = Raise e) \<longrightarrow>
          fst (handle_message rt m p) = Raise e)"
proof -
  note hm = handle_message_execute [OF assms(1-5), of p, unfolded assms(6)]
  note ev = execute_python_eval_raises [OF assms(7,8)]
  note ex = execute_python_exec_raises [OF assms(7)]
  have 1: "fst (handle_message rt m p) =
            Return (json_dumps (success_response (dict_get d ''id'' JNull)
              (result_json \<lparr>r_success = False, r_output = a,
                            r_error = b @ [nl] @ format_exc rt e, r_result = None\<rparr>)))"
    if "as_outcome r1 = Raise e" "is_exception e" "\<not> is_syntax_error e"
       "captured rt out err q1 = Return (a, b)"
    unfolding hm ev [OF that(1,3)] using that(2,4) by (simp add: on_exception_caught)
  have 2: "fst (handle_message rt m p) =
            Return (json_dumps (success_response (dict_get d ''id'' JNull)
              (result_json \<lparr>r_success = False, r_output = a,
                            r_error = b @ [nl] @ format_exc rt e, r_result = None\<rparr>)))"
    if "r1 = Rejected e0" "is_syntax_error e0" "as_outcome r2 = Raise e" "is_exception e"
       "captured rt out err q2 = Return (a, b)"
    unfolding hm ex [OF assms(8) [unfolded that(1)] that(2) assms(9) that(3)]
    using that(4,5) by (simp add: on_exception_caught)
  have 3: "fst (handle_message rt m p) = Raise e"
    if "as_outcome r1 = Raise e" "\<not> is_exception e"
    unfolding hm ev [OF that(1) not_exception_not_syntax [OF that(2)]]
    using that(2) by (simp add: on_exception_escapes except_handler_def)
  have 4: "fst (handle_message rt m p) = Raise e"
    if "r1 = Rejected e0" "is_syntax_error e0" "as_outcome r2 = Raise e" "\<not> is_exception e"
    unfolding hm ex [OF assms(8) [unfolded that(1)] that(2) assms(9) that(3)]
    using that(4) by (simp add: on_exception_escapes except_handler_def)
  show ?thesis
    using 1 2 3 4 by blast
qed

text \<open>
  Claim C5, as the code has it. Take a turn of the loop that reads a frame holding a
  \<open>tools/execute\<close> request with tool \<open>execute\<close>; \<open>out\<close> and \<open>err\<close> are the two capture
  buffers of the call, \<open>r1\<close> is what \<open>eval\<close> does with the code and \<open>r2\<close> what \<open>exec\<close>
  does with it afterwards.
  \<^item> When \<open>eval\<close> raises an instance of \<open>Exception\<close> that is no \<open>SyntaxError\<close>, and
    afterwards the capture buffers can still be read and standard output is open, the
    response is a success response whose result has \<open>success\<close> false, no \<open>result\<close>, the
    captured output, and as \<open>error\<close> the captured error text, a newline and the
    formatted traceback (never empty); the turn writes it, framed, to standard output,
    and the loop goes on with its next turn.
  \<^item> When \<open>eval\<close> rejects the code with a \<open>SyntaxError\<close> and \<open>exec\<close> raises an instance of
    \<open>Exception\<close>, the same.
  \<^item> When either raises an exception that is no instance of \<open>Exception\<close> (\<open>SystemExit\<close>,
    \<open>KeyboardInterrupt\<close>), neither \<open>except\<close> clause catches it: it leaves
    \<open>execute_python\<close>, \<open>handle_message\<close> and the loop, which ends with the exception
    uncaught.
\<close>

theorem exception_turn:
  assumes "next_frame rt p = Some (m, pm)"
      and "json_loads rt m = Return (JObj d)"
      and "dict_get d ''method'' JNull = JStr ''tools/execute''"
      and "dict_get d ''params'' (JObj []) = JObj ps"
      and "dict_get ps ''tool'' JNull = JStr ''execute''"
      and "dict_get ps ''arguments'' (JObj []) = JObj as"
      and "dict_get as ''code'' (JStr []) = code"
      and "capture_enter pm = (out, err, pc)"
      and "py_eval rt code pc = (r1, q1)"
      and "py_exec rt code (q1\<lparr>calls := calls pc @ [EvalCall code]\<rparr>) = (r2, q2)"
  shows "(as_outcome r1 = Raise e \<and> is_exception e \<and> \<not> is_syntax_error e
            \<and> captured rt out err q1 = Return (a, b)
            \<and> obj_at q1 (sys_stdout p) = Open t \<longrightarrow>
          fst (handle_message rt m pm) =
            Return (json_dumps (success_response (dict_get d ''id'' JNull)
              (result_json \<lparr>r_success = False, r_output = a,
                            r_error = b @ [nl] @ format_exc rt e, r_result = None\<rparr>)))
          \<and> fst (main_step rt p) = Served
          \<and> serve rt p = serve rt (snd (main_step rt p))
          \<and> obj_at (snd (main_step rt p)) (sys_stdout p) =
              Open (t @ framed (json_dumps (success_response (dict_get d ''id'' JNull)
              (result_json \<lparr>r_success = False, r_output = a,
                            r_error = b @ [nl] @ format_exc rt e, r_result = None\<rparr>)))))
       \<and> (r1 = Rejected e0 \<and> is_syntax_error e0 \<and> as_outcome r2 = Raise e \<and> is_exception e
            \<and> captured rt out err q2 = Return (a, b)
            \<and> obj_at q2 (sys_stdout p) = Open t \<longrightarrow>
          fst (handle_message rt m pm) =
            Return (json_dumps (success_response (dict_get d ''id'' JNull)
              (result_json \<lparr>r_success = False, r_output = a,
                            r_error = b @ [nl] @ format_exc rt e, r_result = None\<rparr>)))
          \<and> fst (main_step rt p) = Served
          \<and> serve rt p = serve rt (snd (main_step rt p))
          \<and> obj_at (snd (main_step rt p)) (sys_stdout p) =
              Open (t @ framed (json_dumps (success_response (dict_get d ''id'' JNull)
              (result_json \<lparr>r_success = False, r_output = a,
                            r_error = b @ [nl] @ format_exc rt e, r_result = None\<rparr>)))))
       \<and> (\<not> is_exception e
            \<and> (as_outcome r1 = Raise e
                 \<or> r1 = Rejected e0 \<and> is_syntax_error e0 \<and> as_outcome r2 = Raise e) \<longrightarrow>
          fst (handle_message rt m pm) = Raise e
          \<and> fst (main_step rt p) = Crash e
          \<and> serve rt p = Some (Uncaught e, snd (main_step rt p)))"
proof -
  note hm = handle_message_execute [OF assms(2-6), of pm, unfolded assms(7)]
  note ev = execute_python_eval_raises [OF assms(8,9)]
  note ex = execute_python_exec_raises [OF assms(8)]
  note so = next_frame_fields(3) [OF assms(1)]
  let ?res = "\<lparr>r_success = False, r_output = a,
               r_error = b @ [nl] @ format_exc rt e, r_result = None\<rparr>"
  let ?response = "json_dumps (success_response (dict_get d ''id'' JNull) (result_json ?res))"
  have 1: "fst (handle_message rt m pm) =
            Return (json_dumps (success_response (dict_get d ''id'' JNull)
              (result_json \<lparr>r_success = False, r_output = a,
                            r_error = b @ [nl] @ format_exc rt e, r_result = None\<rparr>)))
          \<and> fst (main_step rt p) = Served
          \<and> serve rt p = serve rt (snd (main_step rt p))
          \<and> obj_at (snd (main_step rt p)) (sys_stdout p) =
              Open (t @ framed (json_dumps (success_response (dict_get d ''id'' JNull)
              (result_json \<lparr>r_success = False, r_output = a,
                            r_error = b @ [nl] @ format_exc rt e, r_result = None\<rparr>))))"
    if "as_outcome r1 = Raise e" "is_exception e" "\<not> is_syntax_error e"
       "captured rt out err q1 = Return (a, b)" "obj_at q1 (sys_stdout p) = Open t"
  proof -
    let ?q = "q1\<lparr>calls := calls pc @ [EvalCall code], sys_stdout := sys_stdout pm,
                 sys_stderr := sys_stderr pm\<rparr>"
    have h: "handle_message rt m pm = (Return ?response, ?q)"
      unfolding hm ev [OF that(1,3)] using that(2,4) by (simp add: on_exception_caught)
    have s: "sys_stdout ?q = sys_stdout p"
      by (simp add: so)
    have o: "obj_at ?q (sys_stdout p) = Open t"
      using that(5) by simp
    show ?thesis
      using caught_turn(1-3) [OF assms(1) h s o] h by simp
  qed
  have 2: "fst (handle_message rt m pm) =
            Return (json_dumps (success_response (dict_get d ''id'' JNull)
              (result_json \<lparr>r_success = False, r_output = a,
                            r_error = b @ [nl] @ format_exc rt e, r_result = None\<rparr>)))
          \<and> fst (main_step rt p) = Served
          \<and> serve rt p = serve rt (snd (main_step rt p))
          \<and> obj_at (snd (main_step rt p)) (sys_stdout p) =
              Open (t @ framed (json_dumps (success_response (dict_get d ''id'' JNull)
              (result_json \<lparr>r_success = False, r_output = a,
                            r_error = b @ [nl] @ format_exc rt e, r_result = None\<rparr>))))"
    if "r1 = Rejected e0" "is_syntax_error e0" "as_outcome r2 = Raise e" "is_exception e"
       "captured rt out err q2 = Return (a, b)" "obj_at q2 (sys_stdout p) = Open t"
  proof -
    let ?q = "q2\<lparr>calls := calls pc @ [EvalCall code, ExecCall code],
                 sys_stdout := sys_stdout pm, sys_stderr := sys_stderr pm\<rparr>"
    have h: "handle_message rt m pm = (Return ?response, ?q)"
      unfolding hm ex [OF assms(9) [unfolded that(1)] that(2) assms(10) that(3)]
      using that(4,5) by (simp add: on_exception_caught)
    have s: "sys_stdout ?q = sys_stdout p"
      by (simp add: so)
    have o: "obj_at ?q (sys_stdout p) = Open t"
      using that(6) by simp
    show ?thesis
      using caught_turn(1-3) [OF assms(1) h s o] h by simp
  qed
  have 3: "fst (handle_message rt m pm) = Raise e"
    if "as_outcome r1 = Raise e" "\<not> is_exception e"
    unfolding hm ev [OF that(1) not_exception_not_syntax [OF that(2)]]
    using that(2) by (simp add: on_exception_escapes except_handler_def)
  have 4: "fst (handle_message rt m pm) = Raise e"
    if "r1 = Rejected e0" "is_syntax_error e0" "as_outcome r2 = Raise e" "\<not> is_exception e"
    unfolding hm ex [OF assms(9) [unfolded that(1)] that(2) assms(10) that(3)]
    using that(4) by (simp add: on_exception_escapes except_handler_def)
  have 5: "fst (handle_message rt m pm) = Raise e
          \<and> fst (main_step rt p) = Crash e
          \<and> serve rt p = Some (Uncaught e, snd (main_step rt p))"
    if "fst (handle_message rt m pm) = Raise e"
    using escaped_turn [OF assms(1) that] that by simp
  show ?thesis
    using 1 2 3 4 5 by blast
qed

theorem exception_turn_witness:
  \<open>map_option fst (main (cpy tx0) (p0\<lparr>sys_stdin :=
         ''Content-Length: 95'' @ [cr, nl, cr, nl] @
         ''{"id": 1, "method": "tools/execute", "params": {"tool": "execute", "arguments": {"code": "y"}}}'' @
         ''Content-Length: 51'' @ [cr, nl, cr, nl] @
         ''{"jsonrpc": "2.0", "id": 2, "method": "initialize"}''\<rparr>)) = Some Clean
   \<and> map_option (\<lambda>x. obj_at (snd x) 0) (main (cpy tx0) (p0\<lparr>sys_stdin :=
         ''Content-Length: 95'' @ [cr, nl, cr, nl] @
         ''{"id": 1, "method": "tools/execute", "params": {"tool": "execute", "arguments": {"code": "y"}}}'' @
         ''Content-Length: 51'' @ [cr, nl, cr, nl] @
         ''{"jsonrpc": "2.0", "id": 2, "method": "initialize"}''\<rparr>)) =
     Some (Open (framed (json_dumps (success_response (JInt 1) (result_json
         \<lparr>r_success = False, r_output = [],
          r_error = [nl] @ trace_text tx0 (name_error ''y''), r_result = None\<rparr>))) @
                 framed ''{"jsonrpc": "2.0", "id": 2, "result": {"protocolVersion": "2024-11-05", "capabilities": {}, "serverInfo": {"name": "python-repl", "version": "1.0.0"}}}''))
   \<and> fst (main_step (cpy tx0) (p0\<lparr>sys_stdin :=
         ''Content-Length: 99'' @ [cr, nl, cr, nl] @
         ''{"id": 1, "method": "tools/execute", "params": {"tool": "execute", "arguments": {"code": "x = y"}}}''\<rparr>)) = Served
   \<and> obj_at (snd (main_step (cpy tx0) (p0\<lparr>sys_stdin :=
         ''Content-Length: 99'' @ [cr, nl, cr, nl] @
         ''{"id": 1, "method": "tools/execute", "params": {"tool": "execute", "arguments": {"code": "x = y"}}}''\<rparr>))) 0 =
     Open (framed (json_dumps (success_response (JInt 1) (result_json
         \<lparr>r_success = False, r_output = [],
          r_error = [nl] @ trace_text tx0 (name_error ''y''), r_result = None\<rparr>))))
   \<and> map_option fst (main (cpy tx0) (p0\<lparr>sys_stdin :=
         ''Content-Length: 110'' @ [cr, nl, cr, nl] @
         ''{"id": 1, "method": "tools/execute", "params": {"tool": "execute", "arguments": {"code": "raise SystemExit"}}}''\<rparr>)) = Some (Uncaught system_exit)\<close>
proof -
  let ?PA = \<open>p0\<lparr>sys_stdin :=
         ''Content-Length: 95'' @ [cr, nl, cr, nl] @
         ''{"id": 1, "method": "tools/execute", "params": {"tool": "execute", "arguments": {"code": "y"}}}'' @
         ''Content-Length: 51'' @ [cr, nl, cr, nl] @
         ''{"jsonrpc": "2.0", "id": 2, "method": "initialize"}''\<rparr>\<close>
  let ?PI = \<open>p0\<lparr>sys_stdin :=
         ''Content-Length: 51'' @ [cr, nl, cr, nl] @
         ''{"jsonrpc": "2.0", "id": 2, "method": "initialize"}''\<rparr>\<close>
  let ?PB = \<open>p0\<lparr>sys_stdin :=
         ''Content-Length: 99'' @ [cr, nl, cr, nl] @
         ''{"id": 1, "method": "tools/execute", "params": {"tool": "execute", "arguments": {"code": "x = y"}}}''\<rparr>\<close>
  let ?PC = \<open>p0\<lparr>sys_stdin :=
         ''Content-Length: 110'' @ [cr, nl, cr, nl] @
         ''{"id": 1, "method": "tools/execute", "params": {"tool": "execute", "arguments": {"code": "raise SystemExit"}}}''\<rparr>\<close>
  let ?E = \<open>p0\<lparr>sys_stdin := []\<rparr>\<close>
  let ?CI = "?PI\<lparr>objs := objs ?PI @ [Open [], Open []], sys_stdout := length (objs ?PI),
                  sys_stderr := Suc (length (objs ?PI))\<rparr>"
  let ?CE = "?E\<lparr>objs := objs ?E @ [Open [], Open []], sys_stdout := length (objs ?E),
                  sys_stderr := Suc (length (objs ?E))\<rparr>"
  let ?S1 = \<open>p0\<lparr>session := [(''__builtins__'', PObj 0)],
       objs := [Open (framed (json_dumps (success_response (JInt 1) (result_json
         \<lparr>r_success = False, r_output = [],
          r_error = [nl] @ trace_text tx0 (name_error ''y''), r_result = None\<rparr>)))), Open [], Open [], Open []],
       sys_stdin :=
         ''Content-Length: 51'' @ [cr, nl, cr, nl] @
         ''{"jsonrpc": "2.0", "id": 2, "method": "initialize"}'',
       calls := [EvalCall (JStr ''y'')]\<rparr>\<close>
  let ?S2 = \<open>p0\<lparr>session := [(''__builtins__'', PObj 0)],
       objs := [Open (framed (json_dumps (success_response (JInt 1) (result_json
         \<lparr>r_success = False, r_output = [],
          r_error = [nl] @ trace_text tx0 (name_error ''y''), r_result = None\<rparr>))) @
                      framed ''{"jsonrpc": "2.0", "id": 2, "result": {"protocolVersion": "2024-11-05", "capabilities": {}, "serverInfo": {"name": "python-repl", "version": "1.0.0"}}}''), Open [], Open [], Open []],
       sys_stdin := [],
       calls := [EvalCall (JStr ''y'')]\<rparr>\<close>
  have mA: "?PA\<lparr>session := []\<rparr> = ?PA" and mC: "?PC\<lparr>session := []\<rparr> = ?PC"
    by (simp_all add: p0_def)
  have nfA: \<open>next_frame (cpy tx0) ?PA =
      Some (''{"id": 1, "method": "tools/execute", "params": {"tool": "execute", "arguments": {"code": "y"}}}'', ?PI)\<close>
    by code_simp
  have nfB: \<open>next_frame (cpy tx0) ?PB =
      Some (''{"id": 1, "method": "tools/execute", "params": {"tool": "execute", "arguments": {"code": "x = y"}}}'', ?E)\<close>
    by code_simp
  have nfC: \<open>next_frame (cpy tx0) ?PC =
      Some (''{"id": 1, "method": "tools/execute", "params": {"tool": "execute", "arguments": {"code": "raise SystemExit"}}}'', ?E)\<close>
    by code_simp
  have hA: \<open>json_loads (cpy tx0)
      ''{"id": 1, "method": "tools/execute", "params": {"tool": "execute", "arguments": {"code": "y"}}}'' =
      Return (JObj [(''id'', JInt 1), (''method'', JStr ''tools/execute''),
             (''params'', JObj [(''tool'', JStr ''execute''),
                                (''arguments'', JObj [(''code'', JStr ''y'')])])])\<close>
    by code_simp
  have hB: \<open>json_loads (cpy tx0)
      ''{"id": 1, "method": "tools/execute", "params": {"tool": "execute", "arguments": {"code": "x = y"}}}'' =
      Return (JObj [(''id'', JInt 1), (''method'', JStr ''tools/execute''),
             (''params'', JObj [(''tool'', JStr ''execute''),
                                (''arguments'', JObj [(''code'', JStr ''x = y'')])])])\<close>
    by code_simp
  have hC: \<open>json_loads (cpy tx0)
      ''{"id": 1, "method": "tools/execute", "params": {"tool": "execute", "arguments": {"code": "raise SystemExit"}}}'' =
      Return (JObj [(''id'', JInt 1), (''method'', JStr ''tools/execute''),
             (''params'', JObj [(''tool'', JStr ''execute''),
                                (''arguments'', JObj [(''code'', JStr ''raise SystemExit'')])])])\<close>
    by code_simp
  have aA: "as_outcome (fst (py_eval (cpy tx0) (JStr ''y'') ?CI)) = Raise (name_error ''y'')
      \<and> is_exception (name_error ''y'') \<and> \<not> is_syntax_error (name_error ''y'')
      \<and> captured (cpy tx0) (length (objs ?PI)) (Suc (length (objs ?PI)))
            (snd (py_eval (cpy tx0) (JStr ''y'') ?CI)) = Return ([], [])
      \<and> obj_at (snd (py_eval (cpy tx0) (JStr ''y'') ?CI)) (sys_stdout ?PA) = Open []"
    by code_simp
  have aB: "fst (py_eval (cpy tx0) (JStr ''x = y'') ?CE) = Rejected (syntax_error tx0 ''x = y'')
      \<and> is_syntax_error (syntax_error tx0 ''x = y'')
      \<and> as_outcome (fst (py_exec (cpy tx0) (JStr ''x = y'')
            (snd (py_eval (cpy tx0) (JStr ''x = y'') ?CE)
               \<lparr>calls := calls ?CE @ [EvalCall (JStr ''x = y'')]\<rparr>))) = Raise (name_error ''y'')
      \<and> is_exception (name_error ''y'')
      \<and> captured (cpy tx0) (length (objs ?E)) (Suc (length (objs ?E)))
            (snd (py_exec (cpy tx0) (JStr ''x = y'')
            (snd (py_eval (cpy tx0) (JStr ''x = y'') ?CE)
               \<lparr>calls := calls ?CE @ [EvalCall (JStr ''x = y'')]\<rparr>))) = Return ([], [])
      \<and> obj_at (snd (py_exec (cpy tx0) (JStr ''x = y'')
            (snd (py_eval (cpy tx0) (JStr ''x = y'') ?CE)
               \<lparr>calls := calls ?CE @ [EvalCall (JStr ''x = y'')]\<rparr>))) (sys_stdout ?PB) = Open []"
    by code_simp
  have aC: "fst (py_eval (cpy tx0) (JStr ''raise SystemExit'') ?CE) =
        Rejected (syntax_error tx0 ''raise SystemExit'')
      \<and> is_syntax_error (syntax_error tx0 ''raise SystemExit'')
      \<and> as_outcome (fst (py_exec (cpy tx0) (JStr ''raise SystemExit'')
            (snd (py_eval (cpy tx0) (JStr ''raise SystemExit'') ?CE)
               \<lparr>calls := calls ?CE @ [EvalCall (JStr ''raise SystemExit'')]\<rparr>))) =
        Raise system_exit
      \<and> \<not> is_exception system_exit"
    by code_simp
  note iA = exception_turn
      [OF nfA hA _ _ _ _ _ capture_enter_eq surjective_pairing surjective_pairing,
       where ps = "[(''tool'', JStr ''execute''),
                    (''arguments'', JObj [(''code'', JStr ''y'')])]"
         and as = "[(''code'', JStr ''y'')]" and code = "JStr ''y''"]
  have tA: "serve (cpy tx0) ?PA = serve (cpy tx0) (snd (main_step (cpy tx0) ?PA))"
    using iA [where e = "name_error ''y''" and a = "[]" and b = "[]" and t = "[]"] aA
    by (simp add: dict_get_def)
  note iB = exception_turn
      [OF nfB hB _ _ _ _ _ capture_enter_eq surjective_pairing surjective_pairing,
       where ps = "[(''tool'', JStr ''execute''),
                    (''arguments'', JObj [(''code'', JStr ''x = y'')])]"
         and as = "[(''code'', JStr ''x = y'')]" and code = "JStr ''x = y''"]
  have tB: \<open>fst (main_step (cpy tx0) ?PB) = Served
      \<and> obj_at (snd (main_step (cpy tx0) ?PB)) (sys_stdout ?PB) =
        Open ([] @ framed (json_dumps (success_response (JInt 1) (result_json
         \<lparr>r_success = False, r_output = [],
          r_error = [nl] @ trace_text tx0 (name_error ''y''), r_result = None\<rparr>))))\<close>
    using iB [where e = "name_error ''y''" and ?e0.0 = "syntax_error tx0 ''x = y''"
                and a = "[]" and b = "[]" and t = "[]"] aB
    by (simp add: dict_get_def del: json_dumps.simps)
  note iC = exception_turn
      [OF nfC hC _ _ _ _ _ capture_enter_eq surjective_pairing surjective_pairing,
       where ps = "[(''tool'', JStr ''execute''),
                    (''arguments'', JObj [(''code'', JStr ''raise SystemExit'')])]"
         and as = "[(''code'', JStr ''raise SystemExit'')]" and code = "JStr ''raise SystemExit''"]
  have tC: "serve (cpy tx0) ?PC = Some (Uncaught system_exit, snd (main_step (cpy tx0) ?PC))"
    using iC [where e = system_exit and ?e0.0 = "syntax_error tx0 ''raise SystemExit''"] aC
    by (simp add: dict_get_def)
  have sn1: "snd (main_step (cpy tx0) ?PA) = ?S1"
    by code_simp
  have nf2: \<open>next_frame (cpy tx0) ?S1 =
      Some (''{"jsonrpc": "2.0", "id": 2, "method": "initialize"}'', ?S1\<lparr>sys_stdin := []\<rparr>)\<close>
    by code_simp
  have h2: \<open>handle_message (cpy tx0)
      ''{"jsonrpc": "2.0", "id": 2, "method": "initialize"}'' (?S1\<lparr>sys_stdin := []\<rparr>) =
      (Return ''{"jsonrpc": "2.0", "id": 2, "result": {"protocolVersion": "2024-11-05", "capabilities": {}, "serverInfo": {"name": "python-repl", "version": "1.0.0"}}}'', ?S1\<lparr>sys_stdin := []\<rparr>)\<close>
    by code_simp
  have o2: \<open>obj_at (?S1\<lparr>sys_stdin := []\<rparr>) (sys_stdout (?S1\<lparr>sys_stdin := []\<rparr>)) =
      Open (framed (json_dumps (success_response (JInt 1) (result_json
         \<lparr>r_success = False, r_output = [],
          r_error = [nl] @ trace_text tx0 (name_error ''y''), r_result = None\<rparr>))))\<close>
    by (simp add: obj_at_def p0_def)
  have s2: \<open>(?S1\<lparr>sys_stdin := []\<rparr>)\<lparr>objs := (objs (?S1\<lparr>sys_stdin := []\<rparr>))
      [sys_stdout (?S1\<lparr>sys_stdin := []\<rparr>) := Open (framed (json_dumps (success_response (JInt 1) (result_json
         \<lparr>r_success = False, r_output = [],
          r_error = [nl] @ trace_text tx0 (name_error ''y''), r_result = None\<rparr>))) @
         framed ''{"jsonrpc": "2.0", "id": 2, "result": {"protocolVersion": "2024-11-05", "capabilities": {}, "serverInfo": {"name": "python-repl", "version": "1.0.0"}}}'')]\<rparr> = ?S2\<close>
    by (simp add: p0_def)
  have t2: "serve (cpy tx0) ?S1 = serve (cpy tx0) ?S2"
    using served_turn(2) [OF nf2 h2 o2] unfolding s2 .
  have t3: "serve (cpy tx0) ?S2 = Some (Clean, ?S2)"
    by (rule serve_eof) simp
  have rA: "main (cpy tx0) ?PA = Some (Clean, ?S2)"
    unfolding main_def mA tA sn1 t2 t3 ..
  have rC: "main (cpy tx0) ?PC = Some (Uncaught system_exit, snd (main_step (cpy tx0) ?PC))"
    unfolding main_def mC tC ..
  have z: "sys_stdout ?PB = 0"
    by (simp add: p0_def)
  show ?thesis
    unfolding rA rC using tB unfolding z by (simp add: obj_at_def del: json_dumps.simps)
qed

text \<open>
  Claim C5 as stated fails for the snippet \<open>raise SystemExit\<close>: \<open>execute_python\<close> returns
  no result, the exception leaves it. With two frames on standard input, the first
  executing this snippet and the second an \<open>initialize\<close> request, the loop ends with
  \<open>SystemExit\<close> uncaught and nothing has been written to standard output: neither request
  is answered.
\<close>

theorem system_exit_ends_the_server:
  \<open>fst (execute_python (cpy tx0) (JStr ''raise SystemExit'') p0) = Raise system_exit
   \<and> map_option fst (main (cpy tx0) (p0\<lparr>sys_stdin :=
         ''Content-Length: 128'' @ [cr, nl, cr, nl] @
         ''{"jsonrpc": "2.0", "id": 1, "method": "tools/execute", "params": {"tool": "execute", "arguments": {"code": "raise SystemExit"}}}'' @
         ''Content-Length: 51'' @ [cr, nl, cr, nl] @
         ''{"jsonrpc": "2.0", "id": 2, "method": "initialize"}''\<rparr>)) = Some (Uncaught system_exit)
   \<and> map_option (\<lambda>x. obj_at (snd x) 0) (main (cpy tx0) (p0\<lparr>sys_stdin :=
         ''Content-Length: 128'' @ [cr, nl, cr, nl] @
         ''{"jsonrpc": "2.0", "id": 1, "method": "tools/execute", "params": {"tool": "execute", "arguments": {"code": "raise SystemExit"}}}'' @
         ''Content-Length: 51'' @ [cr, nl, cr, nl] @
         ''{"jsonrpc": "2.0", "id": 2, "method": "initialize"}''\<rparr>)) = Some (Open [])\<close>
proof -
  let ?P = \<open>p0\<lparr>sys_stdin :=
         ''Content-Length: 128'' @ [cr, nl, cr, nl] @
         ''{"jsonrpc": "2.0", "id": 1, "method": "tools/execute", "params": {"tool": "execute", "arguments": {"code": "raise SystemExit"}}}'' @
         ''Content-Length: 51'' @ [cr, nl, cr, nl] @
         ''{"jsonrpc": "2.0", "id": 2, "method": "initialize"}''\<rparr>\<close>
  have a: "fst (execute_python (cpy tx0) (JStr ''raise SystemExit'') p0) = Raise system_exit"
    by code_simp
  have m: "?P\<lparr>session := []\<rparr> = ?P"
    by (simp add: p0_def)
  have s: "fst (main_step (cpy tx0) ?P) = Crash system_exit"
    by code_simp
  have o: "obj_at (snd (main_step (cpy tx0) ?P)) 0 = Open []"
    by code_simp
  obtain st q where e: "main_step (cpy tx0) ?P = (st, q)"
    by (cases "main_step (cpy tx0) ?P")
  have st: "st = Crash system_exit" and q: "obj_at q 0 = Open []"
    using s o e by simp_all
  have "main (cpy tx0) ?P = Some (Uncaught system_exit, q)"
    unfolding main_def m by (subst serve.simps) (simp only: e st prod.case step.case)
  then show ?thesis
    using a q by simp
qed

text \<open>
  Claim C2 at the snippet \<open>print(1) + eval('1+')\<close>. It is an expression: \<open>eval\<close> accepts it
  and runs it, \<open>print(1)\<close> writes a line, and then the inner \<open>eval\<close> raises a
  \<open>SyntaxError\<close>. The clause \<open>except SyntaxError\<close> takes this for a rejection of the
  snippet and executes the snippet again with \<open>exec\<close>: the log holds one \<open>eval\<close> and one
  \<open>exec\<close> of it, and the captured output holds the line twice.
\<close>

theorem execute_python_retries_expression:
  \<open>fst (py_eval (cpy tx0) (JStr ''print(1) + eval('1+')'') (snd (snd (capture_enter p0)))) =
     Ran (Raise (syntax_error tx0 ''1+''))
   \<and> fst (execute_python (cpy tx0) (JStr ''print(1) + eval('1+')'') p0) =
     Return \<lparr>r_success = False, r_output = ''1'' @ [nl] @ ''1'' @ [nl],
             r_error = [nl] @ trace_text tx0 (syntax_error tx0 ''1+''), r_result = None\<rparr>
   \<and> calls (snd (execute_python (cpy tx0) (JStr ''print(1) + eval('1+')'') p0)) =
     [EvalCall (JStr ''print(1) + eval('1+')''), ExecCall (JStr ''print(1) + eval('1+')'')]\<close>
  by code_simp

subsection \<open>Exceptions in \<open>handle_message\<close>\<close>




subsection \<open>The main loop\<close>

text \<open>
  Claim C3, as the code has it. The loop reads a line and strips it.
  \<^item> At end of stream the loop ends cleanly.
  \<^item> Whenever the stripped line is empty (at end of stream, and also on a line of white
    space only) the loop ends cleanly, with the rest of the input unread.
  \<^item> A line that is not empty when stripped and does not start with \<open>Content-Length:\<close> is
    dropped: the turn does nothing else, and the loop goes on from the next line.
  \<^item> The loop ends cleanly only when the stripped line is empty.
\<close>

theorem main_step_header_line:
  "(sys_stdin p = [] \<longrightarrow> serve rt p = Some (Clean, p))
   \<and> (strip (fst (readline p)) = [] \<longrightarrow> serve rt p = Some (Clean, snd (readline p)))
   \<and> (strip (fst (readline p)) \<noteq> []
        \<and> \<not> startswith (strip (fst (readline p))) ''Content-Length:'' \<longrightarrow>
      main_step rt p = (Skipped, snd (readline p)) \<and> serve rt p = serve rt (snd (readline p)))
   \<and> (fst (main_step rt p) = Break \<longrightarrow> strip (fst (readline p)) = [])"
proof -
  have b: "main_step rt p = (Break, snd (readline p))" if "strip (fst (readline p)) = []"
    using that by (cases "readline p") (simp add: main_step_def Let_def)
  have s: "main_step rt p = (Skipped, snd (readline p))"
    if "strip (fst (readline p)) \<noteq> []"
       "\<not> startswith (strip (fst (readline p))) ''Content-Length:''"
    using that by (cases "readline p") (simp add: main_step_def Let_def)
  have e: "readline p = ([], p)" if "sys_stdin p = []"
    using that by (simp add: readline_def)
  have 1: "serve rt p = Some (Clean, snd (readline p))" if "strip (fst (readline p)) = []"
    by (subst serve.simps) (simp add: b [OF that])
  have 2: "serve rt p = serve rt (snd (readline p))"
    if "strip (fst (readline p)) \<noteq> []"
       "\<not> startswith (strip (fst (readline p))) ''Content-Length:''"
    by (subst serve.simps) (simp add: s [OF that])
  have 0: "serve rt p = Some (Clean, p)" if "sys_stdin p = []"
    using 1 e [OF that] by (simp add: strip_def)
  have 4: "strip (fst (readline p)) = []" if "fst (main_step rt p) = Break"
    using that
    by (cases "readline p")
       (simp add: main_step_def Let_def
          split: prod.splits if_splits option.splits outcome.splits)
  show ?thesis
    using 0 1 2 4 s by blast
qed

theorem main_step_header_line_witness:
  "serve (cpy tx0) p0 = Some (Clean, p0)
   \<and> main_step (cpy tx0) (p0\<lparr>sys_stdin := ''X-Junk: 1'' @ [cr, nl]\<rparr>) = (Skipped, p0)
   \<and> serve (cpy tx0) (p0\<lparr>sys_stdin := ''X-Junk: 1'' @ [cr, nl]\<rparr>) = Some (Clean, p0)"
proof -
  let ?P = "p0\<lparr>sys_stdin := ''X-Junk: 1'' @ [cr, nl]\<rparr>"
  have e: "sys_stdin p0 = []"
    by (simp add: p0_def)
  have l: "strip (fst (readline ?P)) \<noteq> []
      \<and> \<not> startswith (strip (fst (readline ?P))) ''Content-Length:''"
    by code_simp
  have n: "snd (readline ?P) = p0"
    by code_simp
  have 1: "serve (cpy tx0) p0 = Some (Clean, p0)"
    using main_step_header_line [where p = p0 and rt = "cpy tx0"] e by simp
  have 2: "main_step (cpy tx0) ?P = (Skipped, p0) \<and> serve (cpy tx0) ?P = serve (cpy tx0) p0"
    using main_step_header_line [where p = ?P and rt = "cpy tx0"] l unfolding n by blast
  show ?thesis
    using 1 2 by simp
qed

text \<open>
  Claim C3 as stated fails on an empty line that is not the end of the stream: the loop
  ends cleanly and the frame that follows is never read.
\<close>

theorem blank_line_ends_the_loop:
  "main (cpy tx0) (p0\<lparr>sys_stdin := [nl] @ ''Content-Length: 2'' @ [nl, nl] @ ''{}''\<rparr>) =
     Some (Clean, p0\<lparr>sys_stdin := ''Content-Length: 2'' @ [nl, nl] @ ''{}''\<rparr>)"
proof -
  let ?P = "p0\<lparr>sys_stdin := [nl] @ ''Content-Length: 2'' @ [nl, nl] @ ''{}''\<rparr>"
  have m: "?P\<lparr>session := []\<rparr> = ?P"
    by (simp add: p0_def)
  have s: "main_step (cpy tx0) ?P =
      (Break, p0\<lparr>sys_stdin := ''Content-Length: 2'' @ [nl, nl] @ ''{}''\<rparr>)"
    by code_simp
  show ?thesis
    unfolding main_def m by (subst serve.simps) (simp only: s prod.case step.case)
qed

text \<open>A line that starts with \<open>Content-Length:\<close> and carries no integer ends the loop
  too, with the \<open>ValueError\<close> of \<open>int\<close> uncaught.\<close>

lemma main_step_bad_length:
  "fst (main_step (cpy tx0) (p0\<lparr>sys_stdin := ''Content-Length: abc'' @ [nl]\<rparr>)) =
     Crash \<lparr>exn_kind = OtherException, exn_name = ''ValueError'',
            exn_str = ''invalid literal for int() with base 10''\<rparr>"
  by code_simp

end
